theory Spec2Isabelle
  imports Main "HOL-Library.AList"
begin

section \<open>Python values and errors\<close>

text \<open>
  The exceptions the modelled functions raise. A raise is the value \<open>Inl e\<close> of the
  result; a normal return is \<open>Inr v\<close>. \<open>TextXError\<close> is the exception of the grammar
  library, caught by the directive parser; \<open>PyccelError\<close> is what the diagnostics
  collector raises when it aborts; the other constructors are Python's own.
\<close>

datatype error =
    TypeError string
  | NotImplementedError string
  | IndexError
  | KeyError string
  | AssertionError
  | TextXError string
  | PyccelError string
  | OtherError string

text \<open>
  Modelled from the spec: the element kinds a typed value can carry (the classes of
  \<open>pyccel.ast.datatypes\<close>, not part of the sources at hand).
\<close>

datatype dtype = NativeBool | NativeInteger | NativeFloat | NativeComplex | NativeString

text \<open>
  The objects that reach the constructors of \<open>pyccel/ast/internals.py\<close>: plain Python
  values (which have no \<open>dtype\<close> attribute), and AST nodes (the classes of
  \<open>pyccel.ast.basic\<close> and \<open>pyccel.ast.literals\<close>, known here by what the
  constructors test). A \<open>PyccelAstNode\<close> carries
  its class name and its element kind once the kind is resolved (\<open>None\<close> before, when
  reading the attribute fails); a \<open>LiteralInteger\<close> is an AST node of integer kind.
\<close>

datatype pyobj =
    PyInt int
  | PyStr string
  | PyList "pyobj list"
  | PyTuple "pyobj list"
  | PyccelAstNode string "dtype option"
  | LiteralInteger int
  | BasicNode string

fun class_name :: "pyobj \<Rightarrow> string" where
  "class_name (PyInt _) = ''int''"
| "class_name (PyStr _) = ''str''"
| "class_name (PyList _) = ''list''"
| "class_name (PyTuple _) = ''tuple''"
| "class_name (PyccelAstNode c _) = c"
| "class_name (LiteralInteger _) = ''LiteralInteger''"
| "class_name (BasicNode c) = c"

text \<open>\<open>str(type(x))\<close>, as it appears in an error message.\<close>

definition type_repr :: "pyobj \<Rightarrow> string" where
  "type_repr x = ''<class '' @ [CHR 0x27] @ class_name x @ [CHR 0x27] @ ''>''"

text \<open>\<open>isinstance(x, PyccelAstNode)\<close>.\<close>

fun is_PyccelAstNode :: "pyobj \<Rightarrow> bool" where
  "is_PyccelAstNode (PyccelAstNode _ _) = True"
| "is_PyccelAstNode (LiteralInteger _) = True"
| "is_PyccelAstNode _ = False"

text \<open>\<open>hasattr(x, 'dtype') and isinstance(x.dtype, NativeInteger)\<close>.\<close>

fun has_integer_dtype :: "pyobj \<Rightarrow> bool" where
  "has_integer_dtype (PyccelAstNode _ (Some NativeInteger)) = True"
| "has_integer_dtype (LiteralInteger _) = True"
| "has_integer_dtype _ = False"

section \<open>\<open>pyccel/ast/internals.py\<close>\<close>

subsection \<open>\<open>PyccelInternalFunction\<close> and \<open>PyccelArraySize\<close>\<close>

text \<open>
  \<open>PyccelInternalFunction.__init__(*args)\<close> stores the argument tuple. A subclass is a
  record extension, so a function defined on the record scheme is what every subclass
  inherits when it does not override it.
\<close>

record PyccelInternalFunction =
  args :: "pyobj list"

definition PyccelInternalFunction_init :: "pyobj list \<Rightarrow> PyccelInternalFunction" where
  "PyccelInternalFunction_init as = \<lparr> args = as \<rparr>"

text \<open>The property \<open>is_elemental\<close> as the base class defines it: \<open>return False\<close>.\<close>

definition PyccelInternalFunction_is_elemental ::
    "'a PyccelInternalFunction_scheme \<Rightarrow> bool" where
  "PyccelInternalFunction_is_elemental self = False"

text \<open>
  The attribute access \<open>node.is_elemental\<close>. Python evaluates the first definition of
  the property that it finds along the classes of the node, the most derived class
  first and the base class \<open>PyccelInternalFunction\<close> last. The list \<open>classes\<close> holds,
  for every class of the node below the base class, the property that this class
  defines itself, or \<open>None\<close> when it defines none.
\<close>

fun is_elemental ::
    "('a PyccelInternalFunction_scheme \<Rightarrow> bool) option list
       \<Rightarrow> 'a PyccelInternalFunction_scheme \<Rightarrow> bool" where
  "is_elemental [] self = PyccelInternalFunction_is_elemental self"
| "is_elemental (Some property # classes) self = property self"
| "is_elemental (None # classes) self = is_elemental classes self"

text \<open>
  Modelled from the spec: the choice of a printer that must decide between a direct
  library call and an explicit loop over the elements of an array argument. The spec
  has such a printer consult the flag of the node; no printer of the sources at hand
  reads it. An elemental function is applied to each element on its own.
\<close>

datatype call_form = DirectCall | ElementwiseLoop

definition call_form :: "bool \<Rightarrow> call_form" where
  "call_form elemental = (if elemental then ElementwiseLoop else DirectCall)"

record PyccelArraySize = PyccelInternalFunction +
  arg :: pyobj
  index :: pyobj
  dtype :: dtype
  rank :: nat
  shape :: "pyobj list"
  precision :: int

text \<open>
  The class \<open>PyccelArraySize\<close> derives from \<open>PyccelInternalFunction\<close> directly and
  defines no property \<open>is_elemental\<close>.
\<close>

definition PyccelArraySize_classes ::
    "('a PyccelArraySize_scheme \<Rightarrow> bool) option list" where
  "PyccelArraySize_classes = [None]"

text \<open>
  \<open>PyccelArraySize.__init__(arg, index)\<close>. The table \<open>default_precision\<close> of
  \<open>pyccel.ast.datatypes\<close> is a parameter (a dictionary: a missing key raises
  \<open>KeyError\<close>). \<open>super().__init__()\<close> is called with no argument, so \<open>args\<close> is empty.
\<close>

definition PyccelArraySize_init ::
    "(string \<Rightarrow> int option) \<Rightarrow> pyobj \<Rightarrow> pyobj \<Rightarrow> error + PyccelArraySize" where
  "PyccelArraySize_init default_precision a i =
     (if \<not> (case a of PyList _ \<Rightarrow> True | PyTuple _ \<Rightarrow> True | _ \<Rightarrow> is_PyccelAstNode a)
      then Inl (TypeError (''Unknown type of  '' @ type_repr a @ ''.''))
      else
        (case (case i of
                 PyInt n \<Rightarrow> Inr (LiteralInteger n)
               | _ \<Rightarrow> if \<not> is_PyccelAstNode i
                      then Inl (TypeError (''Unknown type of  '' @ type_repr i @ ''.''))
                      else Inr i) of
           Inl e \<Rightarrow> Inl e
         | Inr i' \<Rightarrow>
             (case default_precision ''integer'' of
                None \<Rightarrow> Inl (KeyError ''integer'')
              | Some p \<Rightarrow>
                  Inr \<lparr> args = [], arg = a, index = i', dtype = NativeInteger,
                        rank = 0, shape = [], precision = p \<rparr>)))"

subsection \<open>\<open>Slice\<close>\<close>

record Slice =
  start :: "pyobj option"
  stop :: "pyobj option"
  step :: "pyobj option"

text \<open>
  \<open>Slice.__init__(start, stop, step = None)\<close>. The class attribute
  \<open>PyccelAstNode.stage\<close> is the first argument. The three checks run in the source's
  order, so the first offending bound names the error.
\<close>

definition Slice_init ::
    "string \<Rightarrow> pyobj option \<Rightarrow> pyobj option \<Rightarrow> pyobj option \<Rightarrow> error + Slice" where
  "Slice_init stage st sp se =
     (if stage = ''syntactic'' then Inr \<lparr> start = st, stop = sp, step = se \<rparr>
      else if st \<noteq> None \<and> \<not> has_integer_dtype (the st)
        then Inl (TypeError ''Slice start must be Integer or None'')
      else if sp \<noteq> None \<and> \<not> has_integer_dtype (the sp)
        then Inl (TypeError ''Slice stop must be Integer or None'')
      else if se \<noteq> None \<and> \<not> has_integer_dtype (the se)
        then Inl (TypeError ''Slice step must be Integer or None'')
      else Inr \<lparr> start = st, stop = sp, step = se \<rparr>)"

text \<open>A bound is acceptable when it is absent or a typed value of integer kind.\<close>

definition bound_ok :: "pyobj option \<Rightarrow> bool" where
  "bound_ok b = (case b of None \<Rightarrow> True | Some x \<Rightarrow> has_integer_dtype x)"

section \<open>\<open>pyccel/codegen/printing/pycode.py\<close>: the printer's state\<close>

subsection \<open>Python string operations\<close>

text \<open>\<open>sep.join(xs)\<close>.\<close>

fun str_join :: "string \<Rightarrow> string list \<Rightarrow> string" where
  "str_join sep [] = []"
| "str_join sep [x] = x"
| "str_join sep (x # y # ys) = x @ sep @ str_join sep (y # ys)"

text \<open>\<open>s.strip('\n')\<close> and \<open>s.replace('\n', '\n' + tab)\<close>.\<close>

definition strip_newlines :: "string \<Rightarrow> string" where
  "strip_newlines s =
     rev (dropWhile (\<lambda>c. c = CHR ''\<newline>'') (rev (dropWhile (\<lambda>c. c = CHR ''\<newline>'') s)))"

definition replace_newlines :: "string \<Rightarrow> string \<Rightarrow> string" where
  "replace_newlines tab s =
     concat (map (\<lambda>c. if c = CHR ''\<newline>'' then CHR ''\<newline>'' # tab else [c]) s)"

subsection \<open>Imports collected while printing\<close>

text \<open>
  Modelled from the spec: \<open>AsName\<close>, \<open>Import\<close> and \<open>DottedName\<close> (classes of
  \<open>pyccel.ast.core\<close> and \<open>pyccel.ast.variable\<close>, not part of the sources at hand);
  the printer only builds them and compares them. An import is registered once per
  source and symbol, so they are plain data here, compared by structure: an import target is a string, an object of
  the library (named by its class) or either of them under an alias; the source of an
  import is a string or a dotted name, and \<open>str\<close> of a dotted name joins its parts
  with dots. \<open>Import(source, target)\<close> holds the collection of its targets, here the
  one target it was built from.
\<close>

datatype import_target = Str string | Obj string | AsName import_target string

datatype source = SourceStr string | DottedName "string list"

fun str_source :: "source \<Rightarrow> string" where
  "str_source (SourceStr s) = s"
| "str_source (DottedName ns) = str_join ''.'' ns"

record Import =
  imp_source :: source
  imp_target :: "import_target list"

text \<open>
  Modelled from the spec: \<open>Scope\<close> objects (the scope manager is not part of the
  sources at hand). A scope has a back-reference to its enclosing scope, or none.
\<close>

datatype scope = Scope string "scope option"

fun parent_scope :: "scope \<Rightarrow> scope option" where
  "parent_scope (Scope _ p) = p"

text \<open>
  The mutable attributes of \<open>PythonCodePrinter\<close>. \<open>_additional_imports\<close> is a
  dictionary from the source's name to a pair of the set of targets already imported
  and the list of import objects, kept as an association list in insertion order.
  \<open>_aliases\<close> maps a class to the name it was imported under. \<open>'n\<close> is the type of AST
  nodes.
\<close>

record 'n printer =
  additional_imports :: "(string \<times> (import_target set \<times> Import list)) list"
  aliases :: "(string \<times> string) list"
  ignore_funcs :: "'n list"
  scope :: "scope option"

text \<open>\<open>PythonCodePrinter.__init__\<close>.\<close>

definition PythonCodePrinter_init :: "'n printer" where
  "PythonCodePrinter_init =
     \<lparr> additional_imports = [], aliases = [], ignore_funcs = [], scope = None \<rparr>"

text \<open>\<open>d.setdefault(k, v)\<close>: the value stored under \<open>k\<close>, and the dictionary.\<close>

definition setdefault :: "'k \<Rightarrow> 'v \<Rightarrow> ('k \<times> 'v) list \<Rightarrow> 'v \<times> ('k \<times> 'v) list" where
  "setdefault k v d = (case map_of d k of Some w \<Rightarrow> (w, d) | None \<Rightarrow> (v, d @ [(k, v)]))"

text \<open>
  \<open>get_additional_imports\<close>: the import objects of every source, in the dictionary's
  order.
\<close>

definition get_additional_imports :: "'n printer \<Rightarrow> Import list" where
  "get_additional_imports st = concat (map (\<lambda>(_, tup). snd tup) (additional_imports st))"

text \<open>
  \<open>insert_new_import(source, target, alias = None)\<close>. The set and the list of the
  source's entry are updated in place, which is an update of the dictionary's entry.
\<close>

definition insert_new_import ::
    "source \<Rightarrow> import_target \<Rightarrow> string option \<Rightarrow> 'n printer \<Rightarrow> 'n printer" where
  "insert_new_import src tgt alias st =
     (let target = (if alias \<noteq> None \<and> the alias \<noteq> [] \<and> Str (the alias) \<noteq> tgt
                    then AsName tgt (the alias) else tgt);
          import_obj = \<lparr> imp_source = src, imp_target = [target] \<rparr>;
          key = str_source src;
          (src_info, imports) = setdefault key ({}, []) (additional_imports st)
      in if list_ex (\<lambda>i. i \<notin> fst src_info) (imp_target import_obj)
         then st\<lparr> additional_imports :=
                    AList.update key
                      (fst src_info \<union> set (imp_target import_obj),
                       snd src_info @ [import_obj]) imports \<rparr>
         else st\<lparr> additional_imports := imports \<rparr>)"

text \<open>
  The import object a registration builds, and the statements among a list of imports
  that bring a target in from a source of a given name.
\<close>

definition import_of :: "source \<Rightarrow> import_target \<Rightarrow> string option \<Rightarrow> Import" where
  "import_of src tgt alias =
     \<lparr> imp_source = src,
       imp_target = [if alias \<noteq> None \<and> the alias \<noteq> [] \<and> Str (the alias) \<noteq> tgt
                     then AsName tgt (the alias) else tgt] \<rparr>"

definition statements_for :: "string \<Rightarrow> import_target list \<Rightarrow> Import list \<Rightarrow> Import list" where
  "statements_for key ts imps =
     filter (\<lambda>i. str_source (imp_source i) = key \<and> list_ex (\<lambda>t. t \<in> set (imp_target i)) ts) imps"

text \<open>
  What every sequence of registrations keeps true of \<open>_additional_imports\<close>: the keys
  are distinct, the set of an entry holds exactly the targets of its import objects, no
  target is imported by two of them, and each import object sits under the name of its
  own source.
\<close>

definition imports_wf :: "(string \<times> (import_target set \<times> Import list)) list \<Rightarrow> bool" where
  "imports_wf d =
     (distinct (map fst d)
      \<and> list_all (\<lambda>(k, (S, L)).
            S = set (concat (map imp_target L))
            \<and> distinct (concat (map imp_target L))
            \<and> list_all (\<lambda>i. str_source (imp_source i) = k) L) d)"

subsection \<open>Printing rules: the state-passing form of \<open>self._print\<close>\<close>

text \<open>
  A printing rule reads and updates the printer and returns text, or raises. The
  dispatcher \<open>self._print\<close>, which picks the rule by the node's class, is the parameter
  \<open>pr\<close> of every rule below: the rule of a node calls it on the node's children, in the
  source's order.
\<close>

type_synonym ('a, 'n) pm = "'n printer \<Rightarrow> error + ('a \<times> 'n printer)"

definition return_pm :: "'a \<Rightarrow> ('a, 'n) pm" where
  "return_pm x = (\<lambda>st. Inr (x, st))"

definition raise_pm :: "error \<Rightarrow> ('a, 'n) pm" where
  "raise_pm e = (\<lambda>st. Inl e)"

definition bind_pm :: "('a, 'n) pm \<Rightarrow> ('a \<Rightarrow> ('b, 'n) pm) \<Rightarrow> ('b, 'n) pm" where
  "bind_pm m f = (\<lambda>st. case m st of Inl e \<Rightarrow> Inl e | Inr (x, st') \<Rightarrow> f x st')"

definition modify_pm :: "('n printer \<Rightarrow> 'n printer) \<Rightarrow> (unit, 'n) pm" where
  "modify_pm g = (\<lambda>st. Inr ((), g st))"

definition get_pm :: "('n printer, 'n) pm" where
  "get_pm = (\<lambda>st. Inr (st, st))"

text \<open>\<open>[self._print(i) for i in xs]\<close>, left to right.\<close>

fun print_all :: "('a \<Rightarrow> (string, 'n) pm) \<Rightarrow> 'a list \<Rightarrow> (string list, 'n) pm" where
  "print_all pr [] = return_pm []"
| "print_all pr (x # xs) =
     bind_pm (pr x) (\<lambda>s. bind_pm (print_all pr xs) (\<lambda>ss. return_pm (s # ss)))"

text \<open>\<open>self._aliases.get(cls, default)\<close>.\<close>

definition aliases_get :: "string \<Rightarrow> string \<Rightarrow> (string, 'n) pm" where
  "aliases_get cls dflt =
     bind_pm get_pm (\<lambda>st. return_pm (case map_of (aliases st) cls of
                                         Some a \<Rightarrow> a | None \<Rightarrow> dflt))"

text \<open>\<open>str(n)\<close> of a Python integer.\<close>

function str_nat :: "nat \<Rightarrow> string" where
  "str_nat n = (if n < 10 then [''0123456789'' ! n]
                else str_nat (n div 10) @ [''0123456789'' ! (n mod 10)])"
  by pat_completeness auto
termination
  by (relation "measure id") auto

declare str_nat.simps [simp del]

definition str_int :: "int \<Rightarrow> string" where
  "str_int i = (if i < 0 then CHR ''-'' # str_nat (nat (- i)) else str_nat (nat i))"

text \<open>
  \<open>_print_NativeBool\<close>, \<open>_print_NativeInteger\<close>, \<open>_print_NativeFloat\<close> and
  \<open>_print_NativeComplex\<close>: what \<open>self._print(expr.dtype)\<close> returns. The printer has no
  rule for the other element kinds, and printing a node without a rule is fatal.
\<close>

fun print_dtype :: "dtype \<Rightarrow> (string, 'n) pm" where
  "print_dtype NativeBool = return_pm ''bool''"
| "print_dtype NativeInteger = return_pm ''int''"
| "print_dtype NativeFloat = return_pm ''float''"
| "print_dtype NativeComplex = return_pm ''complex''"
| "print_dtype NativeString = raise_pm (OtherError ''not yet supported for this target'')"

subsection \<open>Casts and \<open>linspace\<close>\<close>

text \<open>
  A call of \<open>int\<close> or of one of numpy's integer types (\<open>PythonInt\<close> and its
  subclasses): the class of the node, its precision in bytes (\<open>-1\<close> for the default)
  and its argument.
\<close>

record 'n PythonInt =
  pi_cls :: string
  pi_precision :: int
  pi_arg :: 'n

text \<open>\<open>_print_PythonInt\<close>.\<close>

definition print_PythonInt ::
    "('n \<Rightarrow> (string, 'n) pm) \<Rightarrow> 'n PythonInt \<Rightarrow> (string, 'n) pm" where
  "print_PythonInt pr expr =
     bind_pm
       (if pi_precision expr \<noteq> - 1 then
          (let type_name = ''int'' @ str_int (pi_precision expr * 8);
               cls = pi_cls expr
           in bind_pm (aliases_get cls type_name) (\<lambda>name.
              bind_pm (if name = type_name
                       then modify_pm (insert_new_import (SourceStr ''numpy'')
                                         (AsName (Obj cls) name) None)
                       else return_pm ()) (\<lambda>_.
              return_pm name)))
        else return_pm ''int'')
       (\<lambda>name. bind_pm (pr (pi_arg expr)) (\<lambda>a. return_pm (name @ ''('' @ a @ '')'')))"

text \<open>
  A \<open>NumpyLinspace\<close> node: its class and the class attribute \<open>name\<close>, its element kind
  and precision, and the children the rule prints.
\<close>

record 'n NumpyLinspace =
  ls_cls :: string
  ls_name :: string
  ls_dtype :: dtype
  ls_precision :: int
  ls_start :: 'n
  ls_stop :: 'n
  ls_num :: 'n
  ls_endpoint :: 'n

text \<open>\<open>_print_NumpyLinspace\<close>.\<close>

definition print_NumpyLinspace ::
    "('n \<Rightarrow> (string, 'n) pm) \<Rightarrow> 'n NumpyLinspace \<Rightarrow> (string, 'n) pm" where
  "print_NumpyLinspace pr expr =
     bind_pm (aliases_get (ls_cls expr) (ls_name expr)) (\<lambda>name.
     bind_pm (print_dtype (ls_dtype expr)) (\<lambda>dtype.
     (let factor = (if dtype = ''complex'' then 16 else 8);
          dtype = dtype @ str_int (ls_precision expr * factor)
      in bind_pm (pr (ls_start expr)) (\<lambda>start.
         bind_pm (pr (ls_stop expr)) (\<lambda>stop.
         bind_pm (pr (ls_num expr)) (\<lambda>num.
         bind_pm (pr (ls_endpoint expr)) (\<lambda>endpoint.
         return_pm (name @ ''('' @ start @ '', '' @ stop @ '', num='' @ num
                    @ '', endpoint='' @ endpoint @ '', dtype='' @ [CHR 0x27] @ dtype
                    @ [CHR 0x27] @ '')''))))))))"

section \<open>Directives\<close>

subsection \<open>\<open>pyccel/parser/syntax/openmp.py\<close>: \<open>parse\<close>\<close>

text \<open>
  A diagnostic as \<open>errors.report(message, severity = ..., symbol = ...)\<close> records it.
\<close>

record diagnostic =
  message :: string
  severity :: string
  symbol :: string

text \<open>
  Modelled from the spec: the diagnostics collector (class \<open>Errors\<close>, not part of the
  sources at hand). Diagnostics accumulate in the collector, each with its severity and
  the construct it is about; a fatal diagnostic aborts the pipeline of the current
  unit. \<open>report\<close> returns the collector with the diagnostic added, and the exception
  that aborts, if any. Whether the collector aborts by raising is its first argument,
  so that the caller's code after a fatal report is modelled as well.
\<close>

definition report ::
    "bool \<Rightarrow> string \<Rightarrow> string \<Rightarrow> string \<Rightarrow> diagnostic list
       \<Rightarrow> error option \<times> diagnostic list" where
  "report aborts msg sev smb errors =
     (if sev = ''fatal'' \<and> aborts then Some (PyccelError msg) else None,
      errors @ [\<lparr> message = msg, severity = sev, symbol = smb \<rparr>])"

text \<open>
  \<open>parse(stmt, parser, errors)\<close>. The grammar (\<open>meta.model_from_str\<close>, built by the
  grammar library from \<open>openmp.tx\<close>) and the visitor \<open>parser._visit\<close> are parameters;
  either raises \<open>TextXError\<close> with a message, or another exception. The model returned
  by the grammar is the list of its statements. Only \<open>TextXError\<close> is caught: it is
  reported as fatal with the comment as symbol, and \<open>None\<close> is returned if the report
  returns. The failed assertion and any other exception leave the function.
\<close>

definition parse ::
    "bool \<Rightarrow> (string \<Rightarrow> error + 's list) \<Rightarrow> ('s \<Rightarrow> error + 'node) \<Rightarrow> string
       \<Rightarrow> diagnostic list \<Rightarrow> (error + 'node option) \<times> diagnostic list" where
  "parse aborts model_from_str visit stmt errors =
     (case (case model_from_str stmt of
              Inl e \<Rightarrow> Inl e
            | Inr statements \<Rightarrow>
                (case statements of
                   [s] \<Rightarrow> visit s
                 | _ \<Rightarrow> Inl AssertionError)) of
        Inl (TextXError msg) \<Rightarrow>
          (case report aborts msg ''fatal'' stmt errors of
             (Some e, errors') \<Rightarrow> (Inl e, errors')
           | (None, errors') \<Rightarrow> (Inr None, errors'))
      | Inl e \<Rightarrow> (Inl e, errors)
      | Inr node \<Rightarrow> (Inr (Some node), errors))"

subsection \<open>\<open>_print_OmpAnnotatedComment\<close>\<close>




subsection \<open>The directive grammar\<close>














section \<open>Comprehension lowering\<close>

subsection \<open>The loop form of a comprehension\<close>

text \<open>
  The nodes that \<open>_find_functional_expr_and_iterables\<close> meets. Statements and
  expressions are kept apart: the body of a block, of a loop or of a comprehension is
  made of statements, while targets, iterables and the two sides of an assignment are
  expressions. A \<open>FunctionalFor\<close> object (\<open>loops\<close>, \<open>expr\<close>, \<open>lhs\<close>, \<open>indices\<close>,
  \<open>index\<close>) is a statement of a block before lowering, and stands as an expression
  (\<open>InlineFor\<close>) once it has been substituted for the variable it was assigned to.
  \<open>AugAssign\<close> is a subclass of \<open>Assign\<close>. \<open>OtherNode\<close> is a node of any other class,
  with the name of the class. Python's \<open>is\<close> on variables is equality here.
\<close>

datatype expr =
    Variable string
  | Literal int
  | PyccelMul expr expr
  | PyccelAdd expr expr
  | PythonRange expr expr expr
  | InlineFor ffor
and stmt =
    Assign expr expr
  | AugAssign expr string expr
  | CodeBlock "stmt list"
  | For expr expr stmt
  | FunctionalForStmt ffor
  | OtherNode string
and ffor =
    FunctionalFor (ff_loops: "stmt list") (ff_expr: expr) (ff_lhs: expr)
                  (ff_indices: "expr list") (ff_index: expr)

text \<open>\<open>isinstance(b, Assign)\<close>, and the attributes \<open>lhs\<close> and \<open>rhs\<close> of an assignment.\<close>

fun is_Assign :: "stmt \<Rightarrow> bool" where
  "is_Assign (Assign _ _) = True"
| "is_Assign (AugAssign _ _ _) = True"
| "is_Assign _ = False"

fun lhs_of :: "stmt \<Rightarrow> expr option" where
  "lhs_of (Assign l _) = Some l"
| "lhs_of (AugAssign l _ _) = Some l"
| "lhs_of _ = None"

fun rhs_of :: "stmt \<Rightarrow> expr option" where
  "rhs_of (Assign _ r) = Some r"
| "rhs_of (AugAssign _ _ r) = Some r"
| "rhs_of _ = None"

text \<open>
  Modelled from the spec: \<open>substitute\<close> of the node graph core (class \<open>Basic\<close>, not part
  of the sources at hand). \<open>b.substitute(old, new)\<close> replaces the target of every child
  slot below \<open>b\<close> that holds \<open>old\<close> by \<open>new\<close>; the replacement itself is not searched.
\<close>

fun substitute_expr :: "expr \<Rightarrow> expr \<Rightarrow> expr \<Rightarrow> expr"
  and substitute :: "expr \<Rightarrow> expr \<Rightarrow> stmt \<Rightarrow> stmt"
  and substitute_ffor :: "expr \<Rightarrow> expr \<Rightarrow> ffor \<Rightarrow> ffor" where
  "substitute_expr old new (Variable v) = (if Variable v = old then new else Variable v)"
| "substitute_expr old new (Literal n) = (if Literal n = old then new else Literal n)"
| "substitute_expr old new (PyccelMul a b) =
     (if PyccelMul a b = old then new
      else PyccelMul (substitute_expr old new a) (substitute_expr old new b))"
| "substitute_expr old new (PyccelAdd a b) =
     (if PyccelAdd a b = old then new
      else PyccelAdd (substitute_expr old new a) (substitute_expr old new b))"
| "substitute_expr old new (PythonRange a b c) =
     (if PythonRange a b c = old then new
      else PythonRange (substitute_expr old new a) (substitute_expr old new b)
             (substitute_expr old new c))"
| "substitute_expr old new (InlineFor ff) =
     (if InlineFor ff = old then new else InlineFor (substitute_ffor old new ff))"
| "substitute old new (Assign l r) =
     Assign (substitute_expr old new l) (substitute_expr old new r)"
| "substitute old new (AugAssign l op r) =
     AugAssign (substitute_expr old new l) op (substitute_expr old new r)"
| "substitute old new (CodeBlock bs) = CodeBlock (map (substitute old new) bs)"
| "substitute old new (For t it b) =
     For (substitute_expr old new t) (substitute_expr old new it) (substitute old new b)"
| "substitute old new (FunctionalForStmt ff) = FunctionalForStmt (substitute_ffor old new ff)"
| "substitute old new (OtherNode c) = OtherNode c"
| "substitute_ffor old new (FunctionalFor ls e l idxs idx) =
     FunctionalFor (map (substitute old new) ls) (substitute_expr old new e)
       (substitute_expr old new l) (map (substitute_expr old new) idxs)
       (substitute_expr old new idx)"

text \<open>
  The number of statement nodes of a statement, its expressions left out. Substitution
  changes expressions only, so it keeps this number; the descent below goes from a
  statement to one of its statements.
\<close>

fun skel :: "stmt \<Rightarrow> nat" and skel_ffor :: "ffor \<Rightarrow> nat" where
  "skel (Assign _ _) = 1"
| "skel (AugAssign _ _ _) = 1"
| "skel (CodeBlock bs) = Suc (sum_list (map skel bs))"
| "skel (For _ _ b) = Suc (skel b)"
| "skel (FunctionalForStmt ff) = Suc (skel_ffor ff)"
| "skel (OtherNode _) = 1"
| "skel_ffor (FunctionalFor ls _ _ _ _) = Suc (sum_list (map skel ls))"

lemma skel_substitute:
  "skel (substitute old new s) = skel s"
  "skel_ffor (substitute_ffor old new ff) = skel_ffor ff"
proof (induction s and ff rule: skel_skel_ffor.induct)
  case (3 bs)
  then have m: "map (skel \<circ> substitute old new) bs = map skel bs"
    by (intro map_cong) auto
  show ?case by (simp add: m)
next
  case (7 ls e l idxs idx)
  then have m: "map (skel \<circ> substitute old new) ls = map skel ls"
    by (intro map_cong) auto
  show ?case by (simp add: m)
qed simp_all

subsection \<open>\<open>_find_functional_expr_and_iterables\<close>\<close>

text \<open>
  The inner loop over a block's statements:
  \<^verbatim>\<open>while isinstance(body[0], FunctionalFor): func_for = body.pop(0); ...\<close>
  Each leading comprehension is removed and substituted, in the statements that remain,
  for the variable it was assigned to. \<open>body[0]\<close> raises \<open>IndexError\<close> when no
  statement is left.
\<close>

function (sequential) strip_functional_fors :: "stmt list \<Rightarrow> error + stmt list" where
  "strip_functional_fors [] = Inl IndexError"
| "strip_functional_fors (FunctionalForStmt func_for # body) =
     strip_functional_fors (map (substitute (ff_lhs func_for) (InlineFor func_for)) body)"
| "strip_functional_fors body = Inr body"
  by pat_completeness auto
termination
  by (relation "measure length") auto

lemma strip_functional_fors_skel:
  "strip_functional_fors bs = Inr body \<Longrightarrow>
   body \<noteq> [] \<and> sum_list (map skel body) \<le> sum_list (map skel bs)"
proof (induction bs arbitrary: body rule: strip_functional_fors.induct)
  case (2 func_for rest)
  have "map (skel \<circ> substitute (ff_lhs func_for) (InlineFor func_for)) rest = map skel rest"
    by (intro map_cong) (auto simp: skel_substitute)
  with 2 show ?case by fastforce
qed auto

text \<open>
  The descent. \<open>find_loop dummy_var iterables body\<close> is the loop
  \<^verbatim>\<open>while not isinstance(body, Assign): ...\<close>
  from the state \<open>(iterables, body)\<close>; \<open>find_functional_expr_and_iterables\<close> is the
  method, which starts the loop at \<open>expr.loops[1]\<close> with no iterable. In the case of a
  nested comprehension the method calls itself; the body it returns is an assignment,
  so the loop ends there with the iterables extended.
\<close>

function (sequential)
    find_loop :: "expr \<Rightarrow> expr list \<Rightarrow> stmt \<Rightarrow> error + (stmt \<times> expr list)"
  and find_functional_expr_and_iterables :: "ffor \<Rightarrow> error + (stmt \<times> expr list)" where
  "find_loop dummy_var iterables (Assign l r) = Inr (Assign l r, iterables)"
| "find_loop dummy_var iterables (AugAssign l op r) = Inr (AugAssign l op r, iterables)"
| "find_loop dummy_var iterables (CodeBlock bs) =
     (case strip_functional_fors bs of
        Inl e \<Rightarrow> Inl e
      | Inr [] \<Rightarrow> Inl IndexError
      | Inr (b # body) \<Rightarrow>
          if length (b # body) > 1
             \<and> list_ex (\<lambda>b. \<not> (is_Assign b \<and> lhs_of b = Some dummy_var)) body
          then Inl (NotImplementedError
                 ''Pyccel has introduced unnecessary statements which it cannot yet disambiguate in the python printer'')
          else find_loop dummy_var iterables b)"
| "find_loop dummy_var iterables (For t iterable b) =
     find_loop dummy_var (iterables @ [iterable]) b"
| "find_loop dummy_var iterables (FunctionalForStmt ff) =
     (case find_functional_expr_and_iterables ff of
        Inl e \<Rightarrow> Inl e
      | Inr (body, it) \<Rightarrow> Inr (body, iterables @ it))"
| "find_loop dummy_var iterables (OtherNode c) =
     Inl (NotImplementedError (''Type '' @ c @ '' not handled in a FunctionalFor''))"
| "find_functional_expr_and_iterables expr =
     (case ff_loops expr of
        _ # body # _ \<Rightarrow> find_loop (ff_index expr) [] body
      | _ \<Rightarrow> Inl IndexError)"
  by pat_completeness auto
termination
proof (relation "measure (\<lambda>x. case x of Inl (_, _, body) \<Rightarrow> 2 * skel body
                                      | Inr ff \<Rightarrow> 2 * skel_ffor ff + 1)", goal_cases)
  case 1 show ?case by simp
next
  case (2 dummy_var iterables bs body b rest)
  then show ?case using strip_functional_fors_skel [of bs "b # rest"] by simp
next
  case 3 show ?case by simp
next
  case 4 show ?case by simp
next
  case (5 expr l0 rest body rest')
  then show ?case by (cases expr) simp
qed

subsection \<open>\<open>_print_FunctionalFor\<close> and the rules of its operands\<close>

text \<open>
  The rules of the expressions above: \<open>_print_Variable\<close>, \<open>_print_Literal\<close> (a literal
  of default precision prints as its Python value), \<open>_print_PyccelMul\<close>,
  \<open>_print_PyccelAdd\<close> and \<open>_print_PythonRange\<close>. The rule of a comprehension that
  stands inline is the parameter \<open>pf\<close>.
\<close>

fun print_expr :: "(ffor \<Rightarrow> (string, 'n) pm) \<Rightarrow> expr \<Rightarrow> (string, 'n) pm" where
  "print_expr pf (Variable name) = return_pm name"
| "print_expr pf (Literal python_value) = return_pm (str_int python_value)"
| "print_expr pf (PyccelMul a b) =
     bind_pm (print_expr pf a) (\<lambda>x. bind_pm (print_expr pf b) (\<lambda>y.
     return_pm (x @ '' * '' @ y)))"
| "print_expr pf (PyccelAdd a b) =
     bind_pm (print_expr pf a) (\<lambda>x. bind_pm (print_expr pf b) (\<lambda>y.
     return_pm (x @ '' + '' @ y)))"
| "print_expr pf (PythonRange a b c) =
     bind_pm (aliases_get ''PythonRange'' ''range'') (\<lambda>name.
     bind_pm (print_expr pf a) (\<lambda>start.
     bind_pm (print_expr pf b) (\<lambda>stop.
     bind_pm (print_expr pf c) (\<lambda>step.
     return_pm (name @ ''('' @ start @ '', '' @ stop @ '', '' @ step @ '')'')))))"
| "print_expr pf (InlineFor ff) = pf ff"

text \<open>
  \<^verbatim>\<open>' '.join(f'for {self._print(idx)} in {self._print(iters)}' for idx, iters in zip(...))\<close>:
  the clauses, before they are joined.
\<close>

fun print_for_loops ::
    "(expr \<Rightarrow> (string, 'n) pm) \<Rightarrow> (expr \<times> expr) list \<Rightarrow> (string list, 'n) pm" where
  "print_for_loops pr [] = return_pm []"
| "print_for_loops pr ((idx, iters) # ps) =
     bind_pm (pr idx) (\<lambda>i. bind_pm (pr iters) (\<lambda>s.
     bind_pm (print_for_loops pr ps) (\<lambda>rest.
     return_pm ((''for '' @ i @ '' in '' @ s) # rest))))"

text \<open>
  \<open>_print_FunctionalFor\<close>. The body returned by the lowering is an assignment, whose
  \<open>rhs\<close> is printed; reading \<open>rhs\<close> of anything else would raise.
\<close>

definition print_FunctionalFor :: "(expr \<Rightarrow> (string, 'n) pm) \<Rightarrow> ffor \<Rightarrow> (string, 'n) pm" where
  "print_FunctionalFor pr expr =
     (case find_functional_expr_and_iterables expr of
        Inl e \<Rightarrow> raise_pm e
      | Inr (body, iterators) \<Rightarrow>
          bind_pm (pr (ff_lhs expr)) (\<lambda>lhs.
          bind_pm (case rhs_of body of
                     None \<Rightarrow> raise_pm (OtherError ''AttributeError'')
                   | Some rhs \<Rightarrow> pr rhs) (\<lambda>body.
          bind_pm (print_for_loops pr (zip (ff_indices expr) iterators)) (\<lambda>for_loops.
          bind_pm (aliases_get ''FunctionalFor'' ''array'') (\<lambda>name.
          bind_pm (if name = ''array''
                   then modify_pm (insert_new_import (SourceStr ''numpy'')
                                     (AsName (Obj ''NumpyArray'') ''array'') None)
                   else return_pm ()) (\<lambda>_.
          return_pm (lhs @ '' = '' @ name @ ''(['' @ body @ '' '' @ str_join '' '' for_loops
                     @ ''])\<newline>'')))))))"

section \<open>Composite definitions: \<open>_print_FunctionDef\<close> and \<open>_print_Module\<close>\<close>

subsection \<open>Indentation and scopes\<close>

text \<open>\<open>_indent_codestring\<close>, with the tab width of \<open>_default_settings\<close>.\<close>

definition indent_codestring :: "string \<Rightarrow> string" where
  "indent_codestring lines =
     (let tab = replicate 4 (CHR '' '')
      in if lines = [] then lines
         else tab @ replace_newlines tab (strip_newlines lines) @ ''\<newline>'')"

text \<open>
  Modelled from the spec: \<open>set_scope\<close> and \<open>exit_scope\<close> of the printer's base class
  (\<open>CodePrinter\<close>, not part of the sources at hand). Entering a construct makes its
  scope the current one; leaving it makes the enclosing scope current.
\<close>

definition set_scope :: "scope \<Rightarrow> (unit, 'n) pm" where
  "set_scope sc = modify_pm (\<lambda>st. st\<lparr> scope := Some sc \<rparr>)"

definition exit_scope :: "(unit, 'n) pm" where
  "exit_scope =
     (\<lambda>st. case scope st of
              None \<Rightarrow> Inl (OtherError ''AttributeError'')
            | Some sc \<Rightarrow> Inr ((), st\<lparr> scope := parent_scope sc \<rparr>))"

text \<open>\<open>''.join(self._print(i) for i in xs)\<close>.\<close>

definition print_join :: "('a \<Rightarrow> (string, 'n) pm) \<Rightarrow> 'a list \<Rightarrow> (string, 'n) pm" where
  "print_join pr xs = bind_pm (print_all pr xs) (\<lambda>ss. return_pm (concat ss))"

subsection \<open>Function definitions\<close>

text \<open>
  An \<open>Interface\<close> as the two rules read it: the node itself (which \<open>self._print\<close>
  renders), whether it is an argument, and the functions it covers.
\<close>

record 'n Interface =
  if_node :: 'n
  is_argument :: bool
  if_functions :: "'n list"

text \<open>
  The values of the dictionary \<open>expr.decorators\<close>. An entry of a decorator is a
  \<open>FunctionCall\<close> with its arguments, a string, or a sequence of strings. The value
  under a name is a list of entries or a single entry; under \<open>'template'\<close> it is a
  dictionary holding the list \<open>'decorator_list'\<close>, or a false value.
\<close>

datatype 'n decorator_item =
    DecFunctionCall "'n list"
  | DecName string
  | DecStrings "string list"

datatype 'n decorator =
    DecTemplate "'n decorator_item list"
  | DecFalse
  | DecList "'n decorator_item list"
  | DecItem "'n decorator_item"

record 'n FunctionDef =
  fd_scope :: scope
  fd_name :: 'n
  fd_imports :: "'n list"
  fd_interfaces :: "'n Interface list"
  fd_functions :: "'n list"
  fd_body :: 'n
  fd_arguments :: "'n list"
  fd_doc_string :: "'n option"
  fd_decorators :: "(string \<times> 'n decorator) list"
  fd_headers :: "'n option"

text \<open>
  The text of one entry \<open>func\<close> of the decorator \<open>n\<close> (the body of the loop
  \<^verbatim>\<open>for func in f\<close>); \<open>LiteralString\<close> builds the node of a string.
\<close>

definition print_decorator_item ::
    "('n \<Rightarrow> (string, 'n) pm) \<Rightarrow> (string \<Rightarrow> 'n) \<Rightarrow> string \<Rightarrow> 'n decorator_item
       \<Rightarrow> (string, 'n) pm" where
  "print_decorator_item pr LiteralString n func =
     (let args = (case func of
                    DecFunctionCall as \<Rightarrow> as
                  | DecName s \<Rightarrow> if s = n then [] else map (\<lambda>a. LiteralString [a]) s
                  | DecStrings ss \<Rightarrow> map LiteralString ss)
      in if n = ''types'' \<and> length args = 0 then return_pm []
         else if args \<noteq> []
           then bind_pm (print_all pr args) (\<lambda>as.
                return_pm (''@'' @ n @ ''('' @ str_join '', '' as @ '')\<newline>''))
         else return_pm (''@'' @ n @ ''\<newline>''))"

text \<open>
  One round of the loop \<^verbatim>\<open>for n,f in decorators.items()\<close>, from the code printed so
  far to the code with the decorator's lines in front. \<open>pyccel_decorators\<close> and
  \<open>decorators_mod\<close> (of \<open>pyccel.decorators\<close> and \<open>pyccel.ast.utilities\<close>) are
  parameters. A value that is neither a list nor an entry cannot be iterated.
\<close>

definition print_decorator ::
    "('n \<Rightarrow> (string, 'n) pm) \<Rightarrow> (string \<Rightarrow> 'n) \<Rightarrow> string list \<Rightarrow> (string \<Rightarrow> string option)
       \<Rightarrow> string \<times> 'n decorator \<Rightarrow> string \<Rightarrow> (string, 'n) pm" where
  "print_decorator pr LiteralString pyccel_decorators decorators_mod nf code =
     (let n = fst nf; f = snd nf
      in bind_pm (if n \<in> set pyccel_decorators
                  then (case decorators_mod n of
                          None \<Rightarrow> raise_pm (KeyError n)
                        | Some obj \<Rightarrow>
                            modify_pm (insert_new_import (DottedName [''pyccel.decorators''])
                                         (AsName (Obj obj) n) None))
                  else return_pm ()) (\<lambda>_.
         (case f of
            DecList fs \<Rightarrow>
              bind_pm (print_all (print_decorator_item pr LiteralString n) fs) (\<lambda>decs.
              return_pm (concat decs @ code))
          | DecItem func \<Rightarrow>
              bind_pm (print_decorator_item pr LiteralString n func) (\<lambda>dec.
              return_pm (dec @ code))
          | _ \<Rightarrow> raise_pm (TypeError ''object is not iterable''))))"

fun print_decorators_loop ::
    "('n \<Rightarrow> (string, 'n) pm) \<Rightarrow> (string \<Rightarrow> 'n) \<Rightarrow> string list \<Rightarrow> (string \<Rightarrow> string option)
       \<Rightarrow> (string \<times> 'n decorator) list \<Rightarrow> string \<Rightarrow> (string, 'n) pm" where
  "print_decorators_loop pr LiteralString pyccel_decorators decorators_mod [] code =
     return_pm code"
| "print_decorators_loop pr LiteralString pyccel_decorators decorators_mod (nf # rest) code =
     bind_pm (print_decorator pr LiteralString pyccel_decorators decorators_mod nf code)
       (\<lambda>code. print_decorators_loop pr LiteralString pyccel_decorators decorators_mod
                  rest code)"

text \<open>
  The block \<^verbatim>\<open>if decorators: ...\<close>: the entry \<open>'template'\<close> is replaced by its
  decorator list, or removed when it is false (\<open>KeyError\<close> when the dictionary has no
  such entry), and the decorators are printed in the dictionary's order.
\<close>

definition print_decorators ::
    "('n \<Rightarrow> (string, 'n) pm) \<Rightarrow> (string \<Rightarrow> 'n) \<Rightarrow> string list \<Rightarrow> (string \<Rightarrow> string option)
       \<Rightarrow> (string \<times> 'n decorator) list \<Rightarrow> string \<Rightarrow> (string, 'n) pm" where
  "print_decorators pr LiteralString pyccel_decorators decorators_mod decorators code =
     (if decorators = [] then return_pm code
      else
        (case map_of decorators ''template'' of
           None \<Rightarrow> raise_pm (KeyError ''template'')
         | Some (DecTemplate decorator_list) \<Rightarrow>
             print_decorators_loop pr LiteralString pyccel_decorators decorators_mod
               (AList.update ''template'' (DecList decorator_list) decorators) code
         | Some DecFalse \<Rightarrow>
             print_decorators_loop pr LiteralString pyccel_decorators decorators_mod
               (AList.delete ''template'' decorators) code
         | Some (DecList []) \<Rightarrow>
             print_decorators_loop pr LiteralString pyccel_decorators decorators_mod
               (AList.delete ''template'' decorators) code
         | Some _ \<Rightarrow> raise_pm (TypeError ''indices must be integers'')))"

text \<open>\<open>_print_FunctionDef\<close>.\<close>

definition print_FunctionDef ::
    "('n \<Rightarrow> (string, 'n) pm) \<Rightarrow> (string \<Rightarrow> 'n) \<Rightarrow> string list \<Rightarrow> (string \<Rightarrow> string option)
       \<Rightarrow> 'n FunctionDef \<Rightarrow> (string, 'n) pm" where
  "print_FunctionDef pr LiteralString pyccel_decorators decorators_mod expr =
     bind_pm (set_scope (fd_scope expr)) (\<lambda>_.
     bind_pm (pr (fd_name expr)) (\<lambda>name.
     bind_pm (print_join pr (fd_imports expr)) (\<lambda>imports.
     bind_pm (print_join pr
                (map if_node (filter (\<lambda>i. \<not> is_argument i) (fd_interfaces expr))))
       (\<lambda>interfaces.
     bind_pm (print_join pr
                (filter (\<lambda>f. \<not> list_ex (\<lambda>i. f \<in> set (if_functions i)) (fd_interfaces expr))
                   (fd_functions expr)))
       (\<lambda>functions.
     bind_pm (pr (fd_body expr)) (\<lambda>body.
     bind_pm (print_all pr (fd_arguments expr)) (\<lambda>args.
     bind_pm (case fd_doc_string expr of
                Some d \<Rightarrow> pr d
              | None \<Rightarrow> return_pm []) (\<lambda>doc_string.
     (let body = concat [indent_codestring doc_string, indent_codestring functions,
                         indent_codestring interfaces, indent_codestring imports,
                         indent_codestring body];
          code = ''def '' @ name @ ''('' @ str_join '', '' args @ ''):\<newline>'' @ body
                 @ ''\<newline>''
      in bind_pm (print_decorators pr LiteralString pyccel_decorators decorators_mod
                    (fd_decorators expr) code) (\<lambda>code.
         bind_pm (case fd_headers expr of
                    Some h \<Rightarrow> bind_pm (pr h) (\<lambda>headers.
                              return_pm (headers @ ''\<newline>'' @ code))
                  | None \<Rightarrow> return_pm code) (\<lambda>code.
         bind_pm exit_scope (\<lambda>_.
         return_pm code))))))))))))"

subsection \<open>Modules\<close>

text \<open>
  The module's \<open>init_func\<close> as the rule reads it: the function node, and the bodies
  (lists of statements) of the \<open>IfSection\<close> nodes found in it.
\<close>

record 'n init_func =
  init_node :: 'n
  if_section_bodies :: "'n list list"

record 'n Module =
  md_scope :: scope
  md_name :: 'n
  md_imports :: "'n list"
  md_interfaces :: "'n Interface list"
  md_funcs :: "'n list"
  md_classes :: "'n list"
  md_init_func :: "'n init_func option"
  md_free_func :: "'n option"
  md_program :: "'n option"

text \<open>
  \<open>_print_Module\<close>. \<open>pr_import\<close> is \<open>self._print\<close> on the import objects collected
  by \<open>insert_new_import\<close>; \<open>remove_import\<close> is the method of the program node.
\<close>

definition print_Module ::
    "('n \<Rightarrow> (string, 'n) pm) \<Rightarrow> (Import \<Rightarrow> (string, 'n) pm) \<Rightarrow> ('n \<Rightarrow> 'n \<Rightarrow> 'n)
       \<Rightarrow> 'n Module \<Rightarrow> (string, 'n) pm" where
  "print_Module pr pr_import remove_import expr =
     bind_pm (set_scope (md_scope expr)) (\<lambda>_.
     bind_pm (print_join pr (md_imports expr)) (\<lambda>imports.
     bind_pm (print_join pr (map if_node (md_interfaces expr))) (\<lambda>interfaces.
     bind_pm (print_join pr
                (filter (\<lambda>f. \<not> (list_ex (\<lambda>i. f \<in> set (if_functions i)) (md_interfaces expr)
                              \<or> Some f = map_option init_node (md_init_func expr)
                              \<or> Some f = md_free_func expr))
                   (md_funcs expr)))
       (\<lambda>funcs.
     bind_pm (print_join pr (md_classes expr)) (\<lambda>classes.
     bind_pm (case md_init_func expr of
                Some init_func \<Rightarrow>
                  bind_pm (modify_pm (\<lambda>st. st\<lparr> ignore_funcs :=
                                                  ignore_funcs st @ [init_node init_func] \<rparr>))
                    (\<lambda>_.
                  (case if_section_bodies init_func of
                     [] \<Rightarrow> raise_pm IndexError
                   | init_if # _ \<Rightarrow> print_join pr (butlast init_if)))
              | None \<Rightarrow> return_pm []) (\<lambda>init_body.
     bind_pm (case md_free_func expr of
                Some free_func \<Rightarrow>
                  modify_pm (\<lambda>st. st\<lparr> ignore_funcs := ignore_funcs st @ [free_func] \<rparr>)
              | None \<Rightarrow> return_pm ()) (\<lambda>_.
     bind_pm get_pm (\<lambda>st.
     bind_pm (print_all pr_import (get_additional_imports st)) (\<lambda>additional.
     (let imports = imports @ concat additional;
          body = concat [interfaces, funcs, classes, init_body]
      in bind_pm (case md_program expr of
                    Some program \<Rightarrow> pr (remove_import (md_name expr) program)
                  | None \<Rightarrow> return_pm []) (\<lambda>prog.
         bind_pm exit_scope (\<lambda>_.
         return_pm (imports @ ''\<newline>'' @ body @ prog)))))))))))))"

subsection \<open>The order of pieces in a text\<close>

text \<open>
  \<open>after_first p s\<close> is what follows the first occurrence of \<open>p\<close> in \<open>s\<close>;
  \<open>in_order ps s\<close> holds when the texts \<open>ps\<close> occur in \<open>s\<close> one after the other.
\<close>

fun is_prefix :: "string \<Rightarrow> string \<Rightarrow> bool" where
  "is_prefix [] s = True"
| "is_prefix (a # p) [] = False"
| "is_prefix (a # p) (c # s) = (a = c \<and> is_prefix p s)"

fun after_first :: "string \<Rightarrow> string \<Rightarrow> string option" where
  "after_first p [] = (if p = [] then Some [] else None)"
| "after_first p (c # s) =
     (if is_prefix p (c # s) then Some (drop (length p) (c # s))
      else after_first p s)"

fun in_order :: "string list \<Rightarrow> string \<Rightarrow> bool" where
  "in_order [] s = True"
| "in_order (p # ps) s = (case after_first p s of None \<Rightarrow> False | Some r \<Rightarrow> in_order ps r)"

subsection \<open>An example function and an example module\<close>

text \<open>
  A function \<open>f(a, b)\<close> with one nested import, one nested function \<open>g\<close> and a body,
  the same function with a doc string, and a module with one import, one function, one
  class, an \<open>init\<close> function and a program, printed by a printer that has one import
  registered. Their children are given as the texts they print to, so \<open>self._print\<close> is
  \<open>return_pm\<close> on them.
\<close>

definition example_FunctionDef :: "string FunctionDef" where
  "example_FunctionDef =
     \<lparr> fd_scope = Scope ''f'' None, fd_name = ''f'',
       fd_imports = [''import numpy\<newline>''],
       fd_interfaces = [],
       fd_functions = [''def g():\<newline>    pass\<newline>\<newline>''],
       fd_body = ''return 0\<newline>'',
       fd_arguments = [''a'', ''b''], fd_doc_string = None,
       fd_decorators = [], fd_headers = None \<rparr>"

definition documented_FunctionDef :: "string FunctionDef" where
  "documented_FunctionDef = example_FunctionDef\<lparr> fd_doc_string := Some ''doc\<newline>'' \<rparr>"

definition example_Module :: "string Module" where
  "example_Module =
     \<lparr> md_scope = Scope ''m'' None, md_name = ''m'',
       md_imports = [''import numpy\<newline>''],
       md_interfaces = [],
       md_funcs = [''def g():\<newline>    pass\<newline>\<newline>'', ''init''],
       md_classes = [''class C:\<newline>    pass\<newline>\<newline>''],
       md_init_func = Some \<lparr> init_node = ''init'',
                             if_section_bodies = [[''x = 1\<newline>'', ''initialised = True\<newline>'']] \<rparr>,
       md_free_func = None, md_program = Some ''main()\<newline>'' \<rparr>"

definition example_printer :: "string printer" where
  "example_printer =
     insert_new_import (SourceStr ''numpy'') (Obj ''array'') None PythonCodePrinter_init"

section \<open>Theorems\<close>

subsection \<open>Slice construction\<close>

text \<open>
  C6. In the semantic stage, constructing a Slice raises a type error exactly when some
  present bound among start, stop and step is not a typed value of integer kind, and
  the error is then a \<open>TypeError\<close>; otherwise the Slice holds the three bounds as
  given. In the syntactic stage construction always succeeds, whatever the bounds.
\<close>

theorem Slice_init_semantic_check:
  "isl (Slice_init ''semantic'' st sp se) =
     (\<not> (bound_ok st \<and> bound_ok sp \<and> bound_ok se))
   \<and> (isl (Slice_init ''semantic'' st sp se) =
        (\<exists>m. Slice_init ''semantic'' st sp se = Inl (TypeError m)))
   \<and> (bound_ok st \<and> bound_ok sp \<and> bound_ok se) =
        (Slice_init ''semantic'' st sp se = Inr \<lparr> start = st, stop = sp, step = se \<rparr>)
   \<and> Slice_init ''syntactic'' st sp se = Inr \<lparr> start = st, stop = sp, step = se \<rparr>"
  by (cases st; cases sp; cases se) (auto simp: Slice_init_def bound_ok_def)

theorem Slice_init_semantic_check_witness:
  "isl (Slice_init ''semantic'' (Some (LiteralInteger 0)) (Some (PyInt 3)) None)
   \<and> \<not> isl (Slice_init ''semantic'' (Some (LiteralInteger 0))
              (Some (PyccelAstNode ''Variable'' (Some NativeInteger))) None)
   \<and> \<not> isl (Slice_init ''syntactic'' (Some (PyStr ''a'')) (Some (PyInt 3)) None)"
  using Slice_init_semantic_check
          [of "Some (LiteralInteger 0)" "Some (PyInt 3)" None]
        Slice_init_semantic_check
          [of "Some (LiteralInteger 0)"
              "Some (PyccelAstNode ''Variable'' (Some NativeInteger))" None]
        Slice_init_semantic_check [of "Some (PyStr ''a'')" "Some (PyInt 3)" None]
  by (simp add: bound_ok_def)

subsection \<open>Array-size nodes\<close>

text \<open>
  C9. Every successfully constructed \<open>PyccelArraySize\<close> carries the same type
  descriptor whatever its arguments: integer element kind, rank 0, empty shape, and the
  precision that the table \<open>default_precision\<close> gives for \<open>'integer'\<close>. Construction
  succeeds for every list, tuple or AST node argument with an int or AST node index,
  provided the table has the key.
\<close>

theorem PyccelArraySize_descriptor:
  "(PyccelArraySize_init default_precision a i = Inr s \<longrightarrow>
      dtype s = NativeInteger \<and> rank s = 0 \<and> shape s = []
      \<and> default_precision ''integer'' = Some (precision s))
   \<and> ((\<exists>s. PyccelArraySize_init default_precision a i = Inr s) =
       ((case a of PyList _ \<Rightarrow> True | PyTuple _ \<Rightarrow> True | _ \<Rightarrow> is_PyccelAstNode a)
        \<and> (case i of PyInt _ \<Rightarrow> True | _ \<Rightarrow> is_PyccelAstNode i)
        \<and> default_precision ''integer'' \<noteq> None))"
  by (cases a; cases i)
     (auto simp: PyccelArraySize_init_def split: option.splits)

theorem PyccelArraySize_descriptor_witness:
  "PyccelArraySize_init (\<lambda>k. if k = ''integer'' then Some 8 else None)
      (PyccelAstNode ''Variable'' (Some NativeFloat)) (PyInt 1)
    = Inr \<lparr> args = [], arg = PyccelAstNode ''Variable'' (Some NativeFloat),
             index = LiteralInteger 1, dtype = NativeInteger, rank = 0, shape = [],
             precision = 8 \<rparr>
   \<and> dtype \<lparr> args = [], arg = PyccelAstNode ''Variable'' (Some NativeFloat),
             index = LiteralInteger 1, dtype = NativeInteger, rank = 0, shape = [],
             precision = 8 \<rparr> = NativeInteger"
  using PyccelArraySize_descriptor
          [of "\<lambda>k. if k = ''integer'' then Some 8 else None"
              "PyccelAstNode ''Variable'' (Some NativeFloat)" "PyInt 1"
              "\<lparr> args = [], arg = PyccelAstNode ''Variable'' (Some NativeFloat),
                 index = LiteralInteger 1, dtype = NativeInteger, rank = 0, shape = [],
                 precision = 8 \<rparr>"]
  by (simp add: PyccelArraySize_init_def)

subsection \<open>Import registration\<close>

lemma funpow_idem:
  assumes "f (f x) = f x" and "0 < N"
  shows "(f ^^ N) x = f x"
  using assms(2)
proof (induction N)
  case 0 then show ?case by simp
next
  case (Suc n)
  show ?case
  proof (cases n)
    case 0 then show ?thesis by simp
  next
    case (Suc m)
    with Suc.IH have "(f ^^ n) x = f x" by simp
    then show ?thesis using assms(1) by simp
  qed
qed

lemma insert_new_import_idem:
  "insert_new_import src tgt alias (insert_new_import src tgt alias st) = insert_new_import src tgt alias st"
  by (cases "map_of (additional_imports st) (str_source src)")
     (auto simp: insert_new_import_def setdefault_def Let_def update_conv' split: option.splits prod.splits)

lemma one_statement_in_entry:
  "distinct (concat (map g L)) \<Longrightarrow> t \<in> set (concat (map g L)) \<Longrightarrow>
   length (filter (\<lambda>i. t \<in> set (g i)) L) = 1"
proof (induction L)
  case Nil then show ?case by simp
next
  case (Cons a L)
  show ?case
  proof (cases "t \<in> set (g a)")
    case True
    with Cons.prems have "\<forall>i\<in>set L. t \<notin> set (g i)" by auto
    then have "filter (\<lambda>i. t \<in> set (g i)) L = []" by (simp add: filter_empty_conv)
    with True show ?thesis by simp
  next
    case False
    with Cons show ?thesis by auto
  qed
qed

lemma statements_of_other_entries:
  "list_all (\<lambda>(k, (S, L)). list_all (\<lambda>i. str_source (imp_source i) = k) L) d \<Longrightarrow>
   key \<notin> fst ` set d \<Longrightarrow>
   filter (\<lambda>i. str_source (imp_source i) = key \<and> P i) (concat (map (\<lambda>(_, tup). snd tup) d)) = []"
  by (induction d) (auto simp: list_all_iff filter_empty_conv)

lemma statements_of_entry:
  "imports_wf d \<Longrightarrow> map_of d key = Some (S, L) \<Longrightarrow>
   filter (\<lambda>i. str_source (imp_source i) = key \<and> P i) (concat (map (\<lambda>(_, tup). snd tup) d))
     = filter P L"
proof (induction d)
  case Nil then show ?case by simp
next
  case (Cons e d)
  obtain k S' L' where e: "e = (k, (S', L'))" by (cases e) auto
  from Cons.prems(1) have wf: "imports_wf d" and nk: "k \<notin> fst ` set d"
    and srcs: "list_all (\<lambda>i. str_source (imp_source i) = k) L'"
    and rest: "list_all (\<lambda>(k, (S, L)). list_all (\<lambda>i. str_source (imp_source i) = k) L) d"
    by (auto simp: imports_wf_def e list_all_iff)
  show ?case
  proof (cases "k = key")
    case True
    with Cons.prems(2) e have "L' = L" by simp
    moreover have "filter (\<lambda>i. str_source (imp_source i) = key \<and> P i) L' = filter P L'"
      using srcs True by (auto simp: list_all_iff intro: filter_cong)
    moreover have "filter (\<lambda>i. str_source (imp_source i) = key \<and> P i)
                     (concat (map (\<lambda>(_, tup). snd tup) d)) = []"
      using statements_of_other_entries [OF rest] nk True by simp
    ultimately show ?thesis by (simp add: e)
  next
    case False
    with Cons.prems(2) e have m: "map_of d key = Some (S, L)" by simp
    have "filter (\<lambda>i. str_source (imp_source i) = key \<and> P i) L' = []"
      using srcs False by (auto simp: list_all_iff filter_empty_conv)
    with Cons.IH [OF wf m] show ?thesis by (simp add: e)
  qed
qed

lemma imports_wf_update:
  assumes "imports_wf d" and "map_of d key = Some (S, L)" and "t \<notin> S"
    and "str_source (imp_source i) = key" and "imp_target i = [t]"
  shows "imports_wf (AList.update key (S \<union> {t}, L @ [i]) d)"
  using assms
proof (induction d)
  case Nil then show ?case by simp
next
  case (Cons e d)
  obtain k S' L' where e: "e = (k, (S', L'))" by (cases e) auto
  show ?case
  proof (cases "k = key")
    case True
    with Cons.prems e show ?thesis
      by (auto simp: imports_wf_def list_all_iff)
  next
    case False
    from Cons.prems(1) have wf: "imports_wf d" by (auto simp: imports_wf_def)
    from Cons.prems(2) False e have m: "map_of d key = Some (S, L)" by simp
    have "imports_wf (AList.update key (S \<union> {t}, L @ [i]) d)"
      using Cons.IH [OF wf m Cons.prems(3,4,5)] .
    with Cons.prems(1) False e show ?thesis
      by (auto simp: imports_wf_def list_all_iff dom_update)
  qed
qed

lemma imports_wf_append:
  "imports_wf d \<Longrightarrow> map_of d key = None \<Longrightarrow> imports_wf (d @ [(key, ({}, []))])"
  by (auto simp: imports_wf_def list_all_iff map_of_eq_None_iff)

lemma insert_new_import_wf:
  "imports_wf (additional_imports st) \<Longrightarrow>
   imports_wf (additional_imports (insert_new_import src tgt alias st))"
proof -
  assume wf: "imports_wf (additional_imports st)"
  show ?thesis
  proof (cases "map_of (additional_imports st) (str_source src)")
    case None
    have "imports_wf (AList.update (str_source src) ({} \<union> {t}, [] @ [\<lparr>imp_source = src, imp_target = [t]\<rparr>]) (additional_imports st @ [(str_source src, ({}, []))]))" for t
      by (rule imports_wf_update [OF imports_wf_append [OF wf None]]) (simp_all add: None map_add_def)
    with None show ?thesis
      by (simp add: insert_new_import_def setdefault_def Let_def)
  next
    case (Some p)
    obtain S L where p: "p = (S, L)" by (cases p) auto
    have "t \<notin> S \<Longrightarrow> imports_wf (AList.update (str_source src) (S \<union> {t}, L @ [\<lparr>imp_source = src, imp_target = [t]\<rparr>]) (additional_imports st))" for t
      by (rule imports_wf_update [OF wf]) (simp_all add: Some p)
    with Some p wf show ?thesis
      by (auto simp: insert_new_import_def setdefault_def Let_def)
  qed
qed

lemma insert_new_import_registered:
  "\<exists>S L. map_of (additional_imports (insert_new_import src tgt alias st)) (str_source src) = Some (S, L)
     \<and> set (imp_target (import_of src tgt alias)) \<subseteq> S"
  by (cases "map_of (additional_imports st) (str_source src)")
     (auto simp: insert_new_import_def setdefault_def Let_def update_conv' import_of_def split: option.splits prod.splits)

lemma insert_new_import_one_statement:
  assumes wf: "imports_wf (additional_imports st)"
  shows "length (statements_for (str_source src) (imp_target (import_of src tgt alias))
           (get_additional_imports (insert_new_import src tgt alias st))) = 1"
proof -
  let ?st = "insert_new_import src tgt alias st"
  obtain t where t: "imp_target (import_of src tgt alias) = [t]"
    by (simp add: import_of_def)
  obtain S L where m: "map_of (additional_imports ?st) (str_source src) = Some (S, L)"
    and S: "set (imp_target (import_of src tgt alias)) \<subseteq> S"
    using insert_new_import_registered by blast
  have wf': "imports_wf (additional_imports ?st)"
    using wf by (rule insert_new_import_wf)
  from m have "(str_source src, (S, L)) \<in> set (additional_imports ?st)"
    by (rule map_of_SomeD)
  with wf' have SL: "S = set (concat (map imp_target L))"
    and d: "distinct (concat (map imp_target L))"
    by (auto simp: imports_wf_def list_all_iff)
  have "statements_for (str_source src) [t] (get_additional_imports ?st)
          = filter (\<lambda>i. t \<in> set (imp_target i)) L"
    using statements_of_entry [OF wf' m, of "\<lambda>i. t \<in> set (imp_target i)"]
    by (simp add: statements_for_def get_additional_imports_def)
  moreover have "length (filter (\<lambda>i. t \<in> set (imp_target i)) L) = 1"
    using S t SL by (intro one_statement_in_entry [OF d]) auto
  ultimately show ?thesis by (simp add: t)
qed

lemma first_registration:
  "get_additional_imports (insert_new_import src tgt alias PythonCodePrinter_init)
     = [import_of src tgt alias]"
  by (simp add: insert_new_import_def setdefault_def get_additional_imports_def
        PythonCodePrinter_init_def import_of_def Let_def)

lemma insert_new_import_funpow:
  "0 < N \<Longrightarrow>
   ((insert_new_import src tgt alias) ^^ N) s = insert_new_import src tgt alias s"
  using insert_new_import_idem by (rule funpow_idem)

text \<open>
  C5. Registering the same import (source, target, alias) N times, N at least 1, is the
  same as registering it once: the registrations after the first change nothing. In
  any table that registrations can have produced (\<open>imports_wf\<close>, true of the empty
  table and kept by every registration), the collected additional imports then hold
  exactly one import statement that brings the target in from a source of that name;
  from a fresh printer they are exactly that one statement.
\<close>

theorem insert_new_import_once:
  fixes st :: "'n printer"
  assumes "imports_wf (additional_imports st)" and "0 < N"
  shows "((insert_new_import src tgt alias) ^^ N) st = insert_new_import src tgt alias st
       \<and> length (statements_for (str_source src) (imp_target (import_of src tgt alias))
           (get_additional_imports (((insert_new_import src tgt alias) ^^ N) st))) = 1
       \<and> imports_wf (additional_imports (((insert_new_import src tgt alias) ^^ N) st))
       \<and> get_additional_imports
           (((insert_new_import src tgt alias) ^^ N) (PythonCodePrinter_init :: 'n printer))
           = [import_of src tgt alias]"
  using insert_new_import_one_statement [OF assms(1)] insert_new_import_wf [OF assms(1)]
  by (simp add: insert_new_import_funpow [OF assms(2)] first_registration)

theorem insert_new_import_once_witness:
  "imports_wf (additional_imports (PythonCodePrinter_init :: nat printer)) \<and> (0::nat) < 3
   \<and> get_additional_imports
       (((insert_new_import (SourceStr ''numpy'') (AsName (Obj ''NumpyArray'') ''array'') None) ^^ 3)
          (PythonCodePrinter_init :: nat printer))
     = [\<lparr> imp_source = SourceStr ''numpy'', imp_target = [AsName (Obj ''NumpyArray'') ''array''] \<rparr>]"
proof -
  have wf: "imports_wf (additional_imports (PythonCodePrinter_init :: nat printer))"
    by (simp add: imports_wf_def PythonCodePrinter_init_def)
  have pos: "(0::nat) < 3" by simp
  have "get_additional_imports
          (((insert_new_import (SourceStr ''numpy'') (AsName (Obj ''NumpyArray'') ''array'') None) ^^ 3)
             (PythonCodePrinter_init :: nat printer))
        = [import_of (SourceStr ''numpy'') (AsName (Obj ''NumpyArray'') ''array'') None]"
    using insert_new_import_once [OF wf pos, of "SourceStr ''numpy''"
              "AsName (Obj ''NumpyArray'') ''array''" None]
    by blast
  with wf show ?thesis
    by (simp add: import_of_def)
qed

subsection \<open>Precision suffixes\<close>

lemma str_int_minus_8: "str_int (- 8) = ''-8''"
  by (simp add: str_int_def str_nat.simps)

text \<open>
  C2. The claim that a value of default precision (\<open>-1\<close>) is never printed with a
  numeric width suffix fails for \<open>_print_NumpyLinspace\<close>: the rule appends
  \<open>str(precision * factor)\<close> to the name of the element kind without testing the
  precision, so a float \<open>linspace\<close> of default precision is printed with
  \<open>dtype='float-8'\<close>. \<open>_print_PythonInt\<close> tests the precision first and prints
  \<open>int(x)\<close>. The children are given as their texts, printed as they are.
\<close>

theorem NumpyLinspace_default_precision_suffix:
  "print_NumpyLinspace return_pm
      \<lparr> ls_cls = ''NumpyLinspace'', ls_name = ''linspace'', ls_dtype = NativeFloat,
        ls_precision = - 1, ls_start = ''0'', ls_stop = ''1'', ls_num = ''5'',
        ls_endpoint = ''True'' \<rparr> PythonCodePrinter_init
     = Inr (''linspace(0, 1, num=5, endpoint=True, dtype='float-8')'', PythonCodePrinter_init)
   \<and> print_PythonInt return_pm
      \<lparr> pi_cls = ''PythonInt'', pi_precision = - 1, pi_arg = ''x'' \<rparr> PythonCodePrinter_init
     = Inr (''int(x)'', PythonCodePrinter_init)"
  by (simp add: print_NumpyLinspace_def print_PythonInt_def bind_pm_def return_pm_def
        aliases_get_def get_pm_def PythonCodePrinter_init_def str_int_minus_8)

subsection \<open>Internal functions are not elemental\<close>

text \<open>
  C10. For every internal-function node none of whose classes below the base class
  defines the flag itself (a \<open>PyccelArraySize\<close> node among them), \<open>is_elemental\<close>
  is \<open>False\<close>, and a printer that consults the flag of such a node chooses the direct
  call, not the loop over the elements. The condition matters: when the first class
  that defines the flag is a subclass, the flag is what this subclass says, and so is
  the printer's choice.
\<close>

theorem is_elemental_default:
  assumes "list_all (\<lambda>c. c = None) classes"
  shows "is_elemental classes self = False
       \<and> call_form (is_elemental classes self) = DirectCall
       \<and> is_elemental (classes @ Some property # others) self = property self
       \<and> call_form (is_elemental (classes @ Some property # others) self)
           = (if property self then ElementwiseLoop else DirectCall)"
proof -
  from assms have base: "is_elemental classes self = False"
    by (induction classes) (simp_all add: PyccelInternalFunction_is_elemental_def)
  from assms have
    sub: "is_elemental (classes @ Some property # others) self = property self"
    by (induction classes) simp_all
  from base sub show ?thesis by (simp add: call_form_def)
qed

theorem is_elemental_default_witness:
  "is_elemental PyccelArraySize_classes
       \<lparr> args = [], arg = PyList [], index = LiteralInteger 0, dtype = NativeInteger,
         rank = 0, shape = [], precision = 8 \<rparr> = False
   \<and> call_form (is_elemental PyccelArraySize_classes
       \<lparr> args = [], arg = PyList [], index = LiteralInteger 0, dtype = NativeInteger,
         rank = 0, shape = [], precision = 8 \<rparr>) = DirectCall
   \<and> call_form (is_elemental [None, Some (\<lambda>self. True)]
         (PyccelInternalFunction_init [PyStr ''x''])) = ElementwiseLoop"
  using is_elemental_default
          [of "PyccelArraySize_classes"
              "\<lparr> args = [], arg = PyList [], index = LiteralInteger 0, dtype = NativeInteger,
                 rank = 0, shape = [], precision = 8 \<rparr>"]
        is_elemental_default
          [of "[None]" "PyccelInternalFunction_init [PyStr ''x'']" "\<lambda>self. True" "[]"]
  by (simp add: PyccelArraySize_classes_def PyccelInternalFunction_is_elemental_def
        call_form_def)

subsection \<open>Directive parsing and printing\<close>

text \<open>
  C7. Whenever the comment violates the directive grammar (the grammar raises its
  error on the text), \<open>parse\<close> adds to the collector, after what it holds already, one
  diagnostic of severity \<open>fatal\<close> that carries the grammar's message and the comment
  text itself as its symbol. It returns no AST node: it is aborted by the collector,
  or returns \<open>None\<close>.
\<close>

theorem parse_reports_grammar_violation:
  assumes "model_from_str stmt = Inl (TextXError msg)"
  shows "snd (parse aborts model_from_str visit stmt errors)
           = errors @ [\<lparr> message = msg, severity = ''fatal'', symbol = stmt \<rparr>]
       \<and> fst (parse aborts model_from_str visit stmt errors)
           = (if aborts then Inl (PyccelError msg) else Inr None)
       \<and> fst (parse aborts model_from_str visit stmt errors) \<noteq> Inr (Some node)"
  using assms by (simp add: parse_def report_def)

theorem parse_reports_grammar_violation_witness:
  "parse False
      (\<lambda>s. if s = ''#$ omp parallel for'' then Inr [()] else Inl (TextXError ''Expected omp''))
      (\<lambda>u. Inr ''node'') ''#$ omp paralel'' []
     = (Inr None,
        [\<lparr> message = ''Expected omp'', severity = ''fatal'', symbol = ''#$ omp paralel'' \<rparr>])
   \<and> parse True
      (\<lambda>s. if s = ''#$ omp parallel for'' then Inr [()] else Inl (TextXError ''Expected omp''))
      (\<lambda>u. Inr ''node'') ''#$ omp paralel'' []
     = (Inl (PyccelError ''Expected omp''),
        [\<lparr> message = ''Expected omp'', severity = ''fatal'', symbol = ''#$ omp paralel'' \<rparr>])"
  using parse_reports_grammar_violation
          [of "\<lambda>s. if s = ''#$ omp parallel for'' then Inr [()] else Inl (TextXError ''Expected omp'')"
              "''#$ omp paralel''" "''Expected omp''" False "\<lambda>u. Inr ''node''" "[]" "''node''"]
        parse_reports_grammar_violation
          [of "\<lambda>s. if s = ''#$ omp parallel for'' then Inr [()] else Inl (TextXError ''Expected omp'')"
              "''#$ omp paralel''" "''Expected omp''" True "\<lambda>u. Inr ''node''" "[]" "''node''"]
  by (simp add: prod_eq_iff)















subsection \<open>The order of declarations in a composite definition\<close>

lemma bind_pm_Inr:
  assumes "bind_pm m f st = Inr r"
  obtains x s where "m st = Inr (x, s)" and "f x s = Inr r"
  using assms by (auto simp: bind_pm_def split: sum.splits)

lemma return_pm_Inr: "return_pm x st = Inr (y, st') \<Longrightarrow> y = x"
  by (simp add: return_pm_def)

lemma print_decorator_prefix:
  assumes "print_decorator pr lit pds dmod nf code st = Inr (code', st')"
  shows "\<exists>pre. code' = pre @ code"
proof -
  from assms obtain u s where
    rest: "(case snd nf of
            DecList fs \<Rightarrow>
              bind_pm (print_all (print_decorator_item pr lit (fst nf)) fs) (\<lambda>decs.
              return_pm (concat decs @ code))
          | DecItem func \<Rightarrow>
              bind_pm (print_decorator_item pr lit (fst nf) func) (\<lambda>dec.
              return_pm (dec @ code))
          | _ \<Rightarrow> raise_pm (TypeError ''object is not iterable'')) s = Inr (code', st')"
    unfolding print_decorator_def Let_def by (elim bind_pm_Inr) simp
  show ?thesis
  proof (cases "snd nf")
    case (DecList fs)
    with rest show ?thesis by (auto elim!: bind_pm_Inr dest!: return_pm_Inr)
  next
    case (DecItem func)
    with rest show ?thesis by (auto elim!: bind_pm_Inr dest!: return_pm_Inr)
  qed (use rest in \<open>simp_all add: raise_pm_def\<close>)
qed

lemma print_decorators_loop_prefix:
  "print_decorators_loop pr lit pds dmod ds code st = Inr (code', st') \<Longrightarrow>
   \<exists>pre. code' = pre @ code"
proof (induction ds arbitrary: code st)
  case Nil
  then show ?case by (auto dest: return_pm_Inr)
next
  case (Cons nf ds)
  from Cons.prems obtain c1 s1 where
    a: "print_decorator pr lit pds dmod nf code st = Inr (c1, s1)" and
    b: "print_decorators_loop pr lit pds dmod ds c1 s1 = Inr (code', st')"
    by (auto elim: bind_pm_Inr)
  from print_decorator_prefix [OF a] obtain p1 where "c1 = p1 @ code" ..
  moreover from Cons.IH [OF b] obtain p2 where "code' = p2 @ c1" ..
  ultimately show ?case by simp
qed

lemma print_decorators_prefix:
  assumes "print_decorators pr lit pds dmod ds code st = Inr (code', st')"
  shows "\<exists>pre. code' = pre @ code"
  using assms unfolding print_decorators_def
  by (auto split: if_splits option.splits decorator.splits list.splits
           simp: raise_pm_def dest: return_pm_Inr print_decorators_loop_prefix)

lemma print_FunctionDef_text:
  assumes "print_FunctionDef pr lit pds dmod expr st = Inr (code, st')"
  shows "\<exists>name imports interfaces functions body args doc_string def_text code1
            s1 s2 s3 s4 s5 s6 s7 s8 s9.
         pr (fd_name expr) (st\<lparr> scope := Some (fd_scope expr) \<rparr>) = Inr (name, s1)
       \<and> print_join pr (fd_imports expr) s1 = Inr (imports, s2)
       \<and> print_join pr (map if_node (filter (\<lambda>i. \<not> is_argument i) (fd_interfaces expr))) s2
           = Inr (interfaces, s3)
       \<and> print_join pr
            (filter (\<lambda>f. \<not> list_ex (\<lambda>i. f \<in> set (if_functions i)) (fd_interfaces expr))
               (fd_functions expr)) s3
           = Inr (functions, s4)
       \<and> pr (fd_body expr) s4 = Inr (body, s5)
       \<and> print_all pr (fd_arguments expr) s5 = Inr (args, s6)
       \<and> (case fd_doc_string expr of Some d \<Rightarrow> pr d | None \<Rightarrow> return_pm []) s6
           = Inr (doc_string, s7)
       \<and> def_text = ''def '' @ name @ ''('' @ str_join '', '' args @ ''):\<newline>''
                    @ indent_codestring doc_string @ indent_codestring functions
                    @ indent_codestring interfaces @ indent_codestring imports
                    @ indent_codestring body @ ''\<newline>''
       \<and> print_decorators pr lit pds dmod (fd_decorators expr) def_text s7 = Inr (code1, s8)
       \<and> (case fd_headers expr of
            Some h \<Rightarrow> bind_pm (pr h) (\<lambda>headers. return_pm (headers @ ''\<newline>'' @ code1))
          | None \<Rightarrow> return_pm code1) s8 = Inr (code, s9)
       \<and> (\<exists>pre. code = pre @ def_text)
       \<and> (fd_decorators expr = [] \<and> fd_headers expr = None \<longrightarrow> code = def_text)"
proof -
  from assms obtain u s0 name s1 imps s2 ifcs s3 fns s4 body s5 args s6
      doc_string s7 code1 s8 code2 s9 u' s10 where
    r_scope: "set_scope (fd_scope expr) st = Inr (u, s0)" and
    r_name: "pr (fd_name expr) s0 = Inr (name, s1)" and
    r_imports: "print_join pr (fd_imports expr) s1 = Inr (imps, s2)" and
    r_interfaces: "print_join pr (map if_node (filter (\<lambda>i. \<not> is_argument i) (fd_interfaces expr))) s2
                   = Inr (ifcs, s3)" and
    r_functions: "print_join pr (filter (\<lambda>f. \<not> list_ex (\<lambda>i. f \<in> set (if_functions i)) (fd_interfaces expr))
                      (fd_functions expr)) s3 = Inr (fns, s4)" and
    r_body: "pr (fd_body expr) s4 = Inr (body, s5)" and
    r_args: "print_all pr (fd_arguments expr) s5 = Inr (args, s6)" and
    r_doc: "(case fd_doc_string expr of Some d \<Rightarrow> pr d | None \<Rightarrow> return_pm []) s6
              = Inr (doc_string, s7)" and
    decs: "print_decorators pr lit pds dmod (fd_decorators expr)
             (''def '' @ name @ ''('' @ str_join '', '' args @ ''):\<newline>''
              @ concat [indent_codestring doc_string, indent_codestring fns,
                        indent_codestring ifcs, indent_codestring imps,
                        indent_codestring body] @ ''\<newline>'') s7 = Inr (code1, s8)" and
    hdrs: "(case fd_headers expr of
              Some h \<Rightarrow> bind_pm (pr h) (\<lambda>headers. return_pm (headers @ ''\<newline>'' @ code1))
            | None \<Rightarrow> return_pm code1) s8 = Inr (code2, s9)" and
    r_exit: "exit_scope s9 = Inr (u', s10)" and
    fin: "return_pm code2 s10 = Inr (code, st')"
    unfolding print_FunctionDef_def Let_def
    by (elim bind_pm_Inr) (rule that; assumption)
  define def_text where
    "def_text = ''def '' @ name @ ''('' @ str_join '', '' args @ ''):\<newline>''
                    @ indent_codestring doc_string @ indent_codestring fns
                    @ indent_codestring ifcs @ indent_codestring imps
                    @ indent_codestring body @ ''\<newline>''"
  from r_scope have s0: "s0 = st\<lparr> scope := Some (fd_scope expr) \<rparr>"
    by (simp add: set_scope_def modify_pm_def)
  from fin have c: "code2 = code" by (simp add: return_pm_def)
  from decs have decs': "print_decorators pr lit pds dmod (fd_decorators expr) def_text s7
                          = Inr (code1, s8)"
    by (simp add: def_text_def)
  from hdrs have "\<exists>p. code2 = p @ code1"
    by (cases "fd_headers expr") (auto elim!: bind_pm_Inr dest: return_pm_Inr)
  then obtain p2 where c2: "code2 = p2 @ code1" ..
  from print_decorators_prefix [OF decs'] obtain p1 where c1: "code1 = p1 @ def_text" ..
  have pre: "\<exists>pre. code = pre @ def_text"
    using c c2 c1 by (intro exI [of _ "p2 @ p1"]) simp
  have plain: "fd_decorators expr = [] \<and> fd_headers expr = None \<longrightarrow> code = def_text"
    using decs' hdrs c by (auto simp: print_decorators_def return_pm_def)
  from r_name [unfolded s0] r_imports r_interfaces r_functions r_body r_args r_doc
    def_text_def decs' hdrs [unfolded c] pre plain
  show ?thesis by blast
qed

lemma print_Module_text:
  assumes "print_Module pr pr_import remove_import m st = Inr (code, st')"
  shows "\<exists>imports interfaces funcs classes init_body additional prog
            s1 s2 s3 s4 s5 s6 s7 s8.
         print_join pr (md_imports m) (st\<lparr> scope := Some (md_scope m) \<rparr>) = Inr (imports, s1)
       \<and> print_join pr (map if_node (md_interfaces m)) s1 = Inr (interfaces, s2)
       \<and> print_join pr
            (filter (\<lambda>f. \<not> (list_ex (\<lambda>i. f \<in> set (if_functions i)) (md_interfaces m)
                              \<or> Some f = map_option init_node (md_init_func m)
                              \<or> Some f = md_free_func m))
               (md_funcs m)) s2
           = Inr (funcs, s3)
       \<and> print_join pr (md_classes m) s3 = Inr (classes, s4)
       \<and> (case md_init_func m of
            Some init_func \<Rightarrow>
              bind_pm (modify_pm (\<lambda>st. st\<lparr> ignore_funcs :=
                                              ignore_funcs st @ [init_node init_func] \<rparr>))
                (\<lambda>_.
              (case if_section_bodies init_func of
                 [] \<Rightarrow> raise_pm IndexError
               | init_if # _ \<Rightarrow> print_join pr (butlast init_if)))
          | None \<Rightarrow> return_pm []) s4 = Inr (init_body, s5)
       \<and> s6 = (case md_free_func m of
                 Some free_func \<Rightarrow> s5\<lparr> ignore_funcs := ignore_funcs s5 @ [free_func] \<rparr>
               | None \<Rightarrow> s5)
       \<and> print_all pr_import (get_additional_imports s6) s6 = Inr (additional, s7)
       \<and> (case md_program m of
            Some program \<Rightarrow> pr (remove_import (md_name m) program)
          | None \<Rightarrow> return_pm []) s7 = Inr (prog, s8)
       \<and> code = imports @ concat additional @ ''\<newline>'' @ interfaces @ funcs @ classes
                @ init_body @ prog"
proof -
  from assms obtain u s0 imps s1 ifcs s2 funcs s3 classes s4 init_body s5 u' s6 st6 s6'
      additional s7 prog s8 u'' s9 where
    r_scope: "set_scope (md_scope m) st = Inr (u, s0)" and
    r_imports: "print_join pr (md_imports m) s0 = Inr (imps, s1)" and
    r_interfaces: "print_join pr (map if_node (md_interfaces m)) s1 = Inr (ifcs, s2)" and
    r_funcs: "print_join pr (filter (\<lambda>f. \<not> (list_ex (\<lambda>i. f \<in> set (if_functions i)) (md_interfaces m)
                              \<or> Some f = map_option init_node (md_init_func m)
                              \<or> Some f = md_free_func m))
                   (md_funcs m)) s2 = Inr (funcs, s3)" and
    r_classes: "print_join pr (md_classes m) s3 = Inr (classes, s4)" and
    r_init: "(case md_init_func m of
            Some init_func \<Rightarrow>
              bind_pm (modify_pm (\<lambda>st. st\<lparr> ignore_funcs :=
                                              ignore_funcs st @ [init_node init_func] \<rparr>))
                (\<lambda>_.
              (case if_section_bodies init_func of
                 [] \<Rightarrow> raise_pm IndexError
               | init_if # _ \<Rightarrow> print_join pr (butlast init_if)))
          | None \<Rightarrow> return_pm []) s4 = Inr (init_body, s5)" and
    r_free: "(case md_free_func m of
                Some free_func \<Rightarrow>
                  modify_pm (\<lambda>st. st\<lparr> ignore_funcs := ignore_funcs st @ [free_func] \<rparr>)
              | None \<Rightarrow> return_pm ()) s5 = Inr (u', s6)" and
    r_get: "get_pm s6 = Inr (st6, s6')" and
    r_additional: "print_all pr_import (get_additional_imports st6) s6' = Inr (additional, s7)" and
    r_prog: "(case md_program m of
            Some program \<Rightarrow> pr (remove_import (md_name m) program)
          | None \<Rightarrow> return_pm []) s7 = Inr (prog, s8)" and
    r_exit: "exit_scope s8 = Inr (u'', s9)" and
    fin: "return_pm ((imps @ concat additional) @ ''\<newline>''
            @ concat [ifcs, funcs, classes, init_body] @ prog) s9 = Inr (code, st')"
    unfolding print_Module_def Let_def
    by (elim bind_pm_Inr) (rule that; assumption)
  from r_scope have s0: "s0 = st\<lparr> scope := Some (md_scope m) \<rparr>"
    by (simp add: set_scope_def modify_pm_def)
  from fin have c: "code = imps @ concat additional @ ''\<newline>'' @ ifcs @ funcs
                   @ classes @ init_body @ prog"
    by (simp add: return_pm_def)
  from r_free have s6: "s6 = (case md_free_func m of
                 Some free_func \<Rightarrow> s5\<lparr> ignore_funcs := ignore_funcs s5 @ [free_func] \<rparr>
               | None \<Rightarrow> s5)"
    by (cases "md_free_func m") (auto simp: modify_pm_def return_pm_def)
  from r_get have g: "st6 = s6" "s6' = s6" by (auto simp: get_pm_def)
  from r_imports [unfolded s0] r_interfaces r_funcs r_classes r_init s6
    r_additional [unfolded g] r_prog c
  show ?thesis by blast
qed

text \<open>
  C1 (as amended). Whenever a function definition is printed, its text is made of the
  texts of its children, printed one after the other from the state the printer is in:
  the \<open>def\<close> line with the name and the arguments, then, indented, the doc string, the
  nested functions that no interface covers, the nested interfaces that are not
  arguments, the nested imports and the main body, in this order, and a newline. The
  nested imports come after the nested definitions. The decorators and the headers
  stand in front of this text, which is the whole text when there are none. Whenever
  a module is printed, its text is its imports, then the imports registered in the
  printer once the imports, interfaces, functions, classes and initialisation body are
  printed, then a newline, the interfaces, the functions that no interface covers
  (the \<open>init\<close> and \<open>free\<close> functions left out), the classes, the initialisation body
  (the first conditional section of the \<open>init\<close> function without its last statement)
  and the program.
\<close>

theorem composite_definition_order:
  "(print_FunctionDef pr lit pds dmod expr st = Inr (code, st') \<longrightarrow>
      (\<exists>name imports interfaces functions body args doc_string def_text code1
          s1 s2 s3 s4 s5 s6 s7 s8 s9.
         pr (fd_name expr) (st\<lparr> scope := Some (fd_scope expr) \<rparr>) = Inr (name, s1)
       \<and> print_join pr (fd_imports expr) s1 = Inr (imports, s2)
       \<and> print_join pr
            (map if_node (filter (\<lambda>i. \<not> is_argument i) (fd_interfaces expr))) s2
           = Inr (interfaces, s3)
       \<and> print_join pr
            (filter (\<lambda>f. \<not> list_ex (\<lambda>i. f \<in> set (if_functions i)) (fd_interfaces expr))
               (fd_functions expr)) s3
           = Inr (functions, s4)
       \<and> pr (fd_body expr) s4 = Inr (body, s5)
       \<and> print_all pr (fd_arguments expr) s5 = Inr (args, s6)
       \<and> (case fd_doc_string expr of Some d \<Rightarrow> pr d | None \<Rightarrow> return_pm []) s6
           = Inr (doc_string, s7)
       \<and> def_text = ''def '' @ name @ ''('' @ str_join '', '' args @ ''):\<newline>''
                    @ indent_codestring doc_string @ indent_codestring functions
                    @ indent_codestring interfaces @ indent_codestring imports
                    @ indent_codestring body @ ''\<newline>''
       \<and> print_decorators pr lit pds dmod (fd_decorators expr) def_text s7
           = Inr (code1, s8)
       \<and> (case fd_headers expr of
            Some h \<Rightarrow> bind_pm (pr h) (\<lambda>headers. return_pm (headers @ ''\<newline>'' @ code1))
          | None \<Rightarrow> return_pm code1) s8 = Inr (code, s9)
       \<and> (\<exists>pre. code = pre @ def_text)
       \<and> (fd_decorators expr = [] \<and> fd_headers expr = None \<longrightarrow> code = def_text)))
   \<and> (print_Module pr pr_import remove_import m mst = Inr (mcode, mst') \<longrightarrow>
      (\<exists>imports interfaces funcs classes init_body additional prog
          s1 s2 s3 s4 s5 s6 s7 s8.
         print_join pr (md_imports m) (mst\<lparr> scope := Some (md_scope m) \<rparr>)
           = Inr (imports, s1)
       \<and> print_join pr (map if_node (md_interfaces m)) s1 = Inr (interfaces, s2)
       \<and> print_join pr
            (filter (\<lambda>f. \<not> (list_ex (\<lambda>i. f \<in> set (if_functions i)) (md_interfaces m)
                              \<or> Some f = map_option init_node (md_init_func m)
                              \<or> Some f = md_free_func m))
               (md_funcs m)) s2
           = Inr (funcs, s3)
       \<and> print_join pr (md_classes m) s3 = Inr (classes, s4)
       \<and> (case md_init_func m of
            Some init_func \<Rightarrow>
              bind_pm (modify_pm (\<lambda>st. st\<lparr> ignore_funcs :=
                                              ignore_funcs st @ [init_node init_func] \<rparr>))
                (\<lambda>_.
              (case if_section_bodies init_func of
                 [] \<Rightarrow> raise_pm IndexError
               | init_if # _ \<Rightarrow> print_join pr (butlast init_if)))
          | None \<Rightarrow> return_pm []) s4 = Inr (init_body, s5)
       \<and> s6 = (case md_free_func m of
                 Some free_func \<Rightarrow> s5\<lparr> ignore_funcs := ignore_funcs s5 @ [free_func] \<rparr>
               | None \<Rightarrow> s5)
       \<and> print_all pr_import (get_additional_imports s6) s6 = Inr (additional, s7)
       \<and> (case md_program m of
            Some program \<Rightarrow> pr (remove_import (md_name m) program)
          | None \<Rightarrow> return_pm []) s7 = Inr (prog, s8)
       \<and> mcode = imports @ concat additional @ ''\<newline>'' @ interfaces @ funcs @ classes
                 @ init_body @ prog))"
proof (intro conjI impI)
  assume "print_FunctionDef pr lit pds dmod expr st = Inr (code, st')"
  then show "\<exists>name imports interfaces functions body args doc_string def_text code1
          s1 s2 s3 s4 s5 s6 s7 s8 s9.
         pr (fd_name expr) (st\<lparr> scope := Some (fd_scope expr) \<rparr>) = Inr (name, s1)
       \<and> print_join pr (fd_imports expr) s1 = Inr (imports, s2)
       \<and> print_join pr
            (map if_node (filter (\<lambda>i. \<not> is_argument i) (fd_interfaces expr))) s2
           = Inr (interfaces, s3)
       \<and> print_join pr
            (filter (\<lambda>f. \<not> list_ex (\<lambda>i. f \<in> set (if_functions i)) (fd_interfaces expr))
               (fd_functions expr)) s3
           = Inr (functions, s4)
       \<and> pr (fd_body expr) s4 = Inr (body, s5)
       \<and> print_all pr (fd_arguments expr) s5 = Inr (args, s6)
       \<and> (case fd_doc_string expr of Some d \<Rightarrow> pr d | None \<Rightarrow> return_pm []) s6
           = Inr (doc_string, s7)
       \<and> def_text = ''def '' @ name @ ''('' @ str_join '', '' args @ ''):\<newline>''
                    @ indent_codestring doc_string @ indent_codestring functions
                    @ indent_codestring interfaces @ indent_codestring imports
                    @ indent_codestring body @ ''\<newline>''
       \<and> print_decorators pr lit pds dmod (fd_decorators expr) def_text s7
           = Inr (code1, s8)
       \<and> (case fd_headers expr of
            Some h \<Rightarrow> bind_pm (pr h) (\<lambda>headers. return_pm (headers @ ''\<newline>'' @ code1))
          | None \<Rightarrow> return_pm code1) s8 = Inr (code, s9)
       \<and> (\<exists>pre. code = pre @ def_text)
       \<and> (fd_decorators expr = [] \<and> fd_headers expr = None \<longrightarrow> code = def_text)"
    by (rule print_FunctionDef_text)
next
  assume "print_Module pr pr_import remove_import m mst = Inr (mcode, mst')"
  then show "\<exists>imports interfaces funcs classes init_body additional prog
          s1 s2 s3 s4 s5 s6 s7 s8.
         print_join pr (md_imports m) (mst\<lparr> scope := Some (md_scope m) \<rparr>)
           = Inr (imports, s1)
       \<and> print_join pr (map if_node (md_interfaces m)) s1 = Inr (interfaces, s2)
       \<and> print_join pr
            (filter (\<lambda>f. \<not> (list_ex (\<lambda>i. f \<in> set (if_functions i)) (md_interfaces m)
                              \<or> Some f = map_option init_node (md_init_func m)
                              \<or> Some f = md_free_func m))
               (md_funcs m)) s2
           = Inr (funcs, s3)
       \<and> print_join pr (md_classes m) s3 = Inr (classes, s4)
       \<and> (case md_init_func m of
            Some init_func \<Rightarrow>
              bind_pm (modify_pm (\<lambda>st. st\<lparr> ignore_funcs :=
                                              ignore_funcs st @ [init_node init_func] \<rparr>))
                (\<lambda>_.
              (case if_section_bodies init_func of
                 [] \<Rightarrow> raise_pm IndexError
               | init_if # _ \<Rightarrow> print_join pr (butlast init_if)))
          | None \<Rightarrow> return_pm []) s4 = Inr (init_body, s5)
       \<and> s6 = (case md_free_func m of
                 Some free_func \<Rightarrow> s5\<lparr> ignore_funcs := ignore_funcs s5 @ [free_func] \<rparr>
               | None \<Rightarrow> s5)
       \<and> print_all pr_import (get_additional_imports s6) s6 = Inr (additional, s7)
       \<and> (case md_program m of
            Some program \<Rightarrow> pr (remove_import (md_name m) program)
          | None \<Rightarrow> return_pm []) s7 = Inr (prog, s8)
       \<and> mcode = imports @ concat additional @ ''\<newline>'' @ interfaces @ funcs @ classes
                 @ init_body @ prog"
    by (rule print_Module_text)
qed

lemma tab4: "replicate 4 (CHR '' '') = ''    ''"
  by (simp add: numeral_eq_Suc)

lemma example_function_text:
  "print_FunctionDef return_pm id [] (\<lambda>n. None) example_FunctionDef PythonCodePrinter_init
     = Inr (''def f(a, b):\<newline>    def g():\<newline>        pass\<newline>    import numpy\<newline>    return 0\<newline>\<newline>'',
            PythonCodePrinter_init)"
  by (simp add: print_FunctionDef_def print_join_def print_decorators_def bind_pm_def
        return_pm_def set_scope_def exit_scope_def modify_pm_def PythonCodePrinter_init_def
        indent_codestring_def strip_newlines_def replace_newlines_def tab4 Let_def
        example_FunctionDef_def)

lemma documented_function_text:
  "print_FunctionDef return_pm id [] (\<lambda>n. None) documented_FunctionDef PythonCodePrinter_init
     = Inr (''def f(a, b):\<newline>    doc\<newline>    def g():\<newline>        pass\<newline>    import numpy\<newline>    return 0\<newline>\<newline>'',
            PythonCodePrinter_init)"
  by (simp add: print_FunctionDef_def print_join_def print_decorators_def bind_pm_def
        return_pm_def set_scope_def exit_scope_def modify_pm_def PythonCodePrinter_init_def
        indent_codestring_def strip_newlines_def replace_newlines_def tab4 Let_def
        documented_FunctionDef_def example_FunctionDef_def)

lemma example_printer_state:
  "example_printer
     = \<lparr> additional_imports =
           [(''numpy'', ({Obj ''array''},
                        [\<lparr> imp_source = SourceStr ''numpy'', imp_target = [Obj ''array''] \<rparr>]))],
         aliases = [], ignore_funcs = [], scope = None \<rparr>"
  by (simp add: example_printer_def insert_new_import_def setdefault_def
        PythonCodePrinter_init_def Let_def)

lemma example_module_text:
  "print_Module return_pm
      (\<lambda>i. return_pm (''from '' @ str_source (imp_source i) @ '' import array\<newline>'')) (\<lambda>n p. p)
      example_Module example_printer
     = Inr (''import numpy\<newline>from numpy import array\<newline>\<newline>def g():\<newline>    pass\<newline>\<newline>class C:\<newline>    pass\<newline>\<newline>x = 1\<newline>main()\<newline>'',
            example_printer\<lparr> ignore_funcs := [''init''] \<rparr>)"
  by (simp add: print_Module_def print_join_def bind_pm_def get_pm_def
        return_pm_def set_scope_def exit_scope_def modify_pm_def PythonCodePrinter_init_def
        get_additional_imports_def Let_def example_Module_def example_printer_state)

theorem composite_definition_order_witness:
  "(\<exists>name imports interfaces functions body args doc_string def_text code1
          s1 s2 s3 s4 s5 s6 s7 s8 s9.
         (return_pm :: string \<Rightarrow> (string, string) pm) (fd_name documented_FunctionDef) (PythonCodePrinter_init\<lparr> scope := Some (fd_scope documented_FunctionDef) \<rparr>) = Inr (name, s1)
       \<and> print_join (return_pm :: string \<Rightarrow> (string, string) pm) (fd_imports documented_FunctionDef) s1 = Inr (imports, s2)
       \<and> print_join (return_pm :: string \<Rightarrow> (string, string) pm)
            (map if_node (filter (\<lambda>i. \<not> is_argument i) (fd_interfaces documented_FunctionDef))) s2
           = Inr (interfaces, s3)
       \<and> print_join (return_pm :: string \<Rightarrow> (string, string) pm)
            (filter (\<lambda>f. \<not> list_ex (\<lambda>i. f \<in> set (if_functions i)) (fd_interfaces documented_FunctionDef))
               (fd_functions documented_FunctionDef)) s3
           = Inr (functions, s4)
       \<and> (return_pm :: string \<Rightarrow> (string, string) pm) (fd_body documented_FunctionDef) s4 = Inr (body, s5)
       \<and> print_all (return_pm :: string \<Rightarrow> (string, string) pm) (fd_arguments documented_FunctionDef) s5 = Inr (args, s6)
       \<and> (case fd_doc_string documented_FunctionDef of Some d \<Rightarrow> (return_pm :: string \<Rightarrow> (string, string) pm) d | None \<Rightarrow> return_pm []) s6
           = Inr (doc_string, s7)
       \<and> def_text = ''def '' @ name @ ''('' @ str_join '', '' args @ ''):\<newline>''
                    @ indent_codestring doc_string @ indent_codestring functions
                    @ indent_codestring interfaces @ indent_codestring imports
                    @ indent_codestring body @ ''\<newline>''
       \<and> print_decorators (return_pm :: string \<Rightarrow> (string, string) pm) id [] (\<lambda>n. None) (fd_decorators documented_FunctionDef) def_text s7
           = Inr (code1, s8)
       \<and> (case fd_headers documented_FunctionDef of
            Some h \<Rightarrow> bind_pm ((return_pm :: string \<Rightarrow> (string, string) pm) h) (\<lambda>headers. return_pm (headers @ ''\<newline>'' @ code1))
          | None \<Rightarrow> return_pm code1) s8 = Inr (''def f(a, b):\<newline>    doc\<newline>    def g():\<newline>        pass\<newline>    import numpy\<newline>    return 0\<newline>\<newline>'', s9)
       \<and> (\<exists>pre. ''def f(a, b):\<newline>    doc\<newline>    def g():\<newline>        pass\<newline>    import numpy\<newline>    return 0\<newline>\<newline>'' = pre @ def_text)
       \<and> (fd_decorators documented_FunctionDef = [] \<and> fd_headers documented_FunctionDef = None \<longrightarrow> ''def f(a, b):\<newline>    doc\<newline>    def g():\<newline>        pass\<newline>    import numpy\<newline>    return 0\<newline>\<newline>'' = def_text))
   \<and> (\<exists>imports interfaces funcs classes init_body additional prog
          s1 s2 s3 s4 s5 s6 s7 s8.
         print_join (return_pm :: string \<Rightarrow> (string, string) pm) (md_imports example_Module) (example_printer\<lparr> scope := Some (md_scope example_Module) \<rparr>)
           = Inr (imports, s1)
       \<and> print_join (return_pm :: string \<Rightarrow> (string, string) pm) (map if_node (md_interfaces example_Module)) s1 = Inr (interfaces, s2)
       \<and> print_join (return_pm :: string \<Rightarrow> (string, string) pm)
            (filter (\<lambda>f. \<not> (list_ex (\<lambda>i. f \<in> set (if_functions i)) (md_interfaces example_Module)
                              \<or> Some f = map_option init_node (md_init_func example_Module)
                              \<or> Some f = md_free_func example_Module))
               (md_funcs example_Module)) s2
           = Inr (funcs, s3)
       \<and> print_join (return_pm :: string \<Rightarrow> (string, string) pm) (md_classes example_Module) s3 = Inr (classes, s4)
       \<and> (case md_init_func example_Module of
            Some init_func \<Rightarrow>
              bind_pm (modify_pm (\<lambda>st. st\<lparr> ignore_funcs :=
                                              ignore_funcs st @ [init_node init_func] \<rparr>))
                (\<lambda>_.
              (case if_section_bodies init_func of
                 [] \<Rightarrow> raise_pm IndexError
               | init_if # _ \<Rightarrow> print_join (return_pm :: string \<Rightarrow> (string, string) pm) (butlast init_if)))
          | None \<Rightarrow> return_pm []) s4 = Inr (init_body, s5)
       \<and> s6 = (case md_free_func example_Module of
                 Some free_func \<Rightarrow> s5\<lparr> ignore_funcs := ignore_funcs s5 @ [free_func] \<rparr>
               | None \<Rightarrow> s5)
       \<and> print_all (\<lambda>i. return_pm (''from '' @ str_source (imp_source i) @ '' import array\<newline>'')) (get_additional_imports s6) s6 = Inr (additional, s7)
       \<and> (case md_program example_Module of
            Some program \<Rightarrow> (return_pm :: string \<Rightarrow> (string, string) pm) ((\<lambda>n p. p) (md_name example_Module) program)
          | None \<Rightarrow> return_pm []) s7 = Inr (prog, s8)
       \<and> ''import numpy\<newline>from numpy import array\<newline>\<newline>def g():\<newline>    pass\<newline>\<newline>class C:\<newline>    pass\<newline>\<newline>x = 1\<newline>main()\<newline>'' = imports @ concat additional @ ''\<newline>'' @ interfaces @ funcs @ classes
                 @ init_body @ prog)"
proof (rule conjI)
  note order = composite_definition_order
          [where pr = return_pm and lit = id and pds = "[]" and dmod = "\<lambda>n. None"
             and expr = documented_FunctionDef and st = PythonCodePrinter_init
             and code = "''def f(a, b):\<newline>    doc\<newline>    def g():\<newline>        pass\<newline>    import numpy\<newline>    return 0\<newline>\<newline>''"
             and st' = PythonCodePrinter_init
             and pr_import = "\<lambda>i. return_pm (''from '' @ str_source (imp_source i) @ '' import array\<newline>'')"
             and remove_import = "\<lambda>n p. p" and m = example_Module
             and mst = example_printer
             and mcode = "''import numpy\<newline>from numpy import array\<newline>\<newline>def g():\<newline>    pass\<newline>\<newline>class C:\<newline>    pass\<newline>\<newline>x = 1\<newline>main()\<newline>''"
             and mst' = "example_printer\<lparr> ignore_funcs := [''init''] \<rparr>"]
  show "\<exists>name imports interfaces functions body args doc_string def_text code1
          s1 s2 s3 s4 s5 s6 s7 s8 s9.
         (return_pm :: string \<Rightarrow> (string, string) pm) (fd_name documented_FunctionDef) (PythonCodePrinter_init\<lparr> scope := Some (fd_scope documented_FunctionDef) \<rparr>) = Inr (name, s1)
       \<and> print_join (return_pm :: string \<Rightarrow> (string, string) pm) (fd_imports documented_FunctionDef) s1 = Inr (imports, s2)
       \<and> print_join (return_pm :: string \<Rightarrow> (string, string) pm)
            (map if_node (filter (\<lambda>i. \<not> is_argument i) (fd_interfaces documented_FunctionDef))) s2
           = Inr (interfaces, s3)
       \<and> print_join (return_pm :: string \<Rightarrow> (string, string) pm)
            (filter (\<lambda>f. \<not> list_ex (\<lambda>i. f \<in> set (if_functions i)) (fd_interfaces documented_FunctionDef))
               (fd_functions documented_FunctionDef)) s3
           = Inr (functions, s4)
       \<and> (return_pm :: string \<Rightarrow> (string, string) pm) (fd_body documented_FunctionDef) s4 = Inr (body, s5)
       \<and> print_all (return_pm :: string \<Rightarrow> (string, string) pm) (fd_arguments documented_FunctionDef) s5 = Inr (args, s6)
       \<and> (case fd_doc_string documented_FunctionDef of Some d \<Rightarrow> (return_pm :: string \<Rightarrow> (string, string) pm) d | None \<Rightarrow> return_pm []) s6
           = Inr (doc_string, s7)
       \<and> def_text = ''def '' @ name @ ''('' @ str_join '', '' args @ ''):\<newline>''
                    @ indent_codestring doc_string @ indent_codestring functions
                    @ indent_codestring interfaces @ indent_codestring imports
                    @ indent_codestring body @ ''\<newline>''
       \<and> print_decorators (return_pm :: string \<Rightarrow> (string, string) pm) id [] (\<lambda>n. None) (fd_decorators documented_FunctionDef) def_text s7
           = Inr (code1, s8)
       \<and> (case fd_headers documented_FunctionDef of
            Some h \<Rightarrow> bind_pm ((return_pm :: string \<Rightarrow> (string, string) pm) h) (\<lambda>headers. return_pm (headers @ ''\<newline>'' @ code1))
          | None \<Rightarrow> return_pm code1) s8 = Inr (''def f(a, b):\<newline>    doc\<newline>    def g():\<newline>        pass\<newline>    import numpy\<newline>    return 0\<newline>\<newline>'', s9)
       \<and> (\<exists>pre. ''def f(a, b):\<newline>    doc\<newline>    def g():\<newline>        pass\<newline>    import numpy\<newline>    return 0\<newline>\<newline>'' = pre @ def_text)
       \<and> (fd_decorators documented_FunctionDef = [] \<and> fd_headers documented_FunctionDef = None \<longrightarrow> ''def f(a, b):\<newline>    doc\<newline>    def g():\<newline>        pass\<newline>    import numpy\<newline>    return 0\<newline>\<newline>'' = def_text)"
    by (rule mp [OF conjunct1 [OF order] documented_function_text])
  show "\<exists>imports interfaces funcs classes init_body additional prog
          s1 s2 s3 s4 s5 s6 s7 s8.
         print_join (return_pm :: string \<Rightarrow> (string, string) pm) (md_imports example_Module) (example_printer\<lparr> scope := Some (md_scope example_Module) \<rparr>)
           = Inr (imports, s1)
       \<and> print_join (return_pm :: string \<Rightarrow> (string, string) pm) (map if_node (md_interfaces example_Module)) s1 = Inr (interfaces, s2)
       \<and> print_join (return_pm :: string \<Rightarrow> (string, string) pm)
            (filter (\<lambda>f. \<not> (list_ex (\<lambda>i. f \<in> set (if_functions i)) (md_interfaces example_Module)
                              \<or> Some f = map_option init_node (md_init_func example_Module)
                              \<or> Some f = md_free_func example_Module))
               (md_funcs example_Module)) s2
           = Inr (funcs, s3)
       \<and> print_join (return_pm :: string \<Rightarrow> (string, string) pm) (md_classes example_Module) s3 = Inr (classes, s4)
       \<and> (case md_init_func example_Module of
            Some init_func \<Rightarrow>
              bind_pm (modify_pm (\<lambda>st. st\<lparr> ignore_funcs :=
                                              ignore_funcs st @ [init_node init_func] \<rparr>))
                (\<lambda>_.
              (case if_section_bodies init_func of
                 [] \<Rightarrow> raise_pm IndexError
               | init_if # _ \<Rightarrow> print_join (return_pm :: string \<Rightarrow> (string, string) pm) (butlast init_if)))
          | None \<Rightarrow> return_pm []) s4 = Inr (init_body, s5)
       \<and> s6 = (case md_free_func example_Module of
                 Some free_func \<Rightarrow> s5\<lparr> ignore_funcs := ignore_funcs s5 @ [free_func] \<rparr>
               | None \<Rightarrow> s5)
       \<and> print_all (\<lambda>i. return_pm (''from '' @ str_source (imp_source i) @ '' import array\<newline>'')) (get_additional_imports s6) s6 = Inr (additional, s7)
       \<and> (case md_program example_Module of
            Some program \<Rightarrow> (return_pm :: string \<Rightarrow> (string, string) pm) ((\<lambda>n p. p) (md_name example_Module) program)
          | None \<Rightarrow> return_pm []) s7 = Inr (prog, s8)
       \<and> ''import numpy\<newline>from numpy import array\<newline>\<newline>def g():\<newline>    pass\<newline>\<newline>class C:\<newline>    pass\<newline>\<newline>x = 1\<newline>main()\<newline>'' = imports @ concat additional @ ''\<newline>'' @ interfaces @ funcs @ classes
                 @ init_body @ prog"
    by (rule mp [OF conjunct2 [OF order] example_module_text])
qed

text \<open>
  The claim as stated fails on the example function: its nested import is printed after
  its nested function \<open>g\<close>, not before it.
\<close>

theorem nested_imports_first_counterexample:
  "print_FunctionDef return_pm id [] (\<lambda>n. None) example_FunctionDef PythonCodePrinter_init
     = Inr (''def f(a, b):\<newline>    def g():\<newline>        pass\<newline>    import numpy\<newline>    return 0\<newline>\<newline>'',
            PythonCodePrinter_init)
   \<and> \<not> in_order [''import numpy'', ''def g():'', ''return 0'']
         ''def f(a, b):\<newline>    def g():\<newline>        pass\<newline>    import numpy\<newline>    return 0\<newline>\<newline>''
   \<and> in_order [''def g():'', ''import numpy'', ''return 0'']
         ''def f(a, b):\<newline>    def g():\<newline>        pass\<newline>    import numpy\<newline>    return 0\<newline>\<newline>''"
  by (simp add: example_function_text)

subsection \<open>Lowering comprehensions\<close>

lemma bind_return: "bind_pm (return_pm x) f = f x"
  by (simp add: bind_pm_def return_pm_def fun_eq_iff)

lemma bind_assoc: "bind_pm (bind_pm m f) g = bind_pm m (\<lambda>x. bind_pm (f x) g)"
  by (auto simp: bind_pm_def fun_eq_iff split: sum.splits)

text \<open>
  C3. Lowering a comprehension whose loop is a two-level nest, the outer loop over
  \<open>r1\<close> and the inner over \<open>r2\<close>, ending in an assignment, returns that assignment and
  the iterables \<open>[r1, r2]\<close>, outer first. For the sum of \<open>x*x\<close> over \<open>i\<close> in
  \<open>range(0, n)\<close> and \<open>j\<close> in \<open>range(0, m)\<close> the returned assignment has \<open>x*x\<close> as its
  right-hand side and the iterables are \<open>[range(0, n), range(0, m)]\<close>. The printing
  rule pairs them in order with the index variables \<open>[i, j]\<close>: it prints the left-hand
  side, \<open>x*x\<close>, then \<open>i\<close>, \<open>range(0, n)\<close>, \<open>j\<close>, \<open>range(0, m)\<close>, and emits
  \<open>lhs = array([x*x for i in ... for j in ...])\<close>.
\<close>

theorem two_level_lowering:
  "(is_Assign a \<longrightarrow>
      find_functional_expr_and_iterables
        (FunctionalFor [init, For i r1 (CodeBlock [For j r2 (CodeBlock [a])])]
           e lhs idxs dummy)
       = Inr (a, [r1, r2]))
   \<and> find_functional_expr_and_iterables
      (FunctionalFor
         [init,
          For i (PythonRange (Literal 0) n (Literal 1))
            (CodeBlock [For j (PythonRange (Literal 0) m (Literal 1))
               (CodeBlock [AugAssign acc ''+'' (PyccelMul x x)])])]
         e lhs [i, j] acc)
     = Inr (AugAssign acc ''+'' (PyccelMul x x),
            [PythonRange (Literal 0) n (Literal 1), PythonRange (Literal 0) m (Literal 1)])
   \<and> rhs_of (AugAssign acc ''+'' (PyccelMul x x)) = Some (PyccelMul x x)
   \<and> print_FunctionalFor pr
      (FunctionalFor
         [init,
          For i (PythonRange (Literal 0) n (Literal 1))
            (CodeBlock [For j (PythonRange (Literal 0) m (Literal 1))
               (CodeBlock [AugAssign acc ''+'' (PyccelMul x x)])])]
         e lhs [i, j] acc)
     = bind_pm (pr lhs) (\<lambda>l.
       bind_pm (pr (PyccelMul x x)) (\<lambda>body.
       bind_pm (pr i) (\<lambda>si.
       bind_pm (pr (PythonRange (Literal 0) n (Literal 1))) (\<lambda>sn.
       bind_pm (pr j) (\<lambda>sj.
       bind_pm (pr (PythonRange (Literal 0) m (Literal 1))) (\<lambda>sm.
       bind_pm (aliases_get ''FunctionalFor'' ''array'') (\<lambda>name.
       bind_pm (if name = ''array''
                then modify_pm (insert_new_import (SourceStr ''numpy'')
                                  (AsName (Obj ''NumpyArray'') ''array'') None)
                else return_pm ()) (\<lambda>_.
       return_pm (l @ '' = '' @ name @ ''(['' @ body @ '' for '' @ si @ '' in '' @ sn
                  @ '' for '' @ sj @ '' in '' @ sm @ ''])\<newline>'')))))))))"
  by (cases a) (simp_all add: print_FunctionalFor_def bind_assoc bind_return)

lemma str_int_digits: "str_int 0 = ''0''" "str_int 1 = ''1''"
  by (simp_all add: str_int_def str_nat.simps)

theorem two_level_lowering_witness:
  "is_Assign (AugAssign (Variable ''acc'') ''+'' (PyccelMul (Variable ''x'') (Variable ''x'')))
   \<and> find_functional_expr_and_iterables
      (FunctionalFor
         [OtherNode ''Allocate'',
          For (Variable ''i'') (PythonRange (Literal 0) (Variable ''n'') (Literal 1))
            (CodeBlock [For (Variable ''j'') (PythonRange (Literal 0) (Variable ''m'') (Literal 1))
               (CodeBlock [AugAssign (Variable ''acc'') ''+''
                             (PyccelMul (Variable ''x'') (Variable ''x''))])])]
         (PyccelMul (Variable ''x'') (Variable ''x'')) (Variable ''lhs'')
         [Variable ''i'', Variable ''j''] (Variable ''acc''))
     = Inr (AugAssign (Variable ''acc'') ''+'' (PyccelMul (Variable ''x'') (Variable ''x'')),
            [PythonRange (Literal 0) (Variable ''n'') (Literal 1),
             PythonRange (Literal 0) (Variable ''m'') (Literal 1)])
   \<and> map_sum id fst
       (print_FunctionalFor (print_expr (\<lambda>ff. raise_pm (OtherError ''nested'')))
        (FunctionalFor
         [OtherNode ''Allocate'',
          For (Variable ''i'') (PythonRange (Literal 0) (Variable ''n'') (Literal 1))
            (CodeBlock [For (Variable ''j'') (PythonRange (Literal 0) (Variable ''m'') (Literal 1))
               (CodeBlock [AugAssign (Variable ''acc'') ''+''
                             (PyccelMul (Variable ''x'') (Variable ''x''))])])]
         (PyccelMul (Variable ''x'') (Variable ''x'')) (Variable ''lhs'')
         [Variable ''i'', Variable ''j''] (Variable ''acc''))
        (PythonCodePrinter_init :: unit printer))
     = Inr ''lhs = array([x * x for i in range(0, n, 1) for j in range(0, m, 1)])\<newline>''"
proof -
  note low = two_level_lowering
          [of "AugAssign (Variable ''acc'') ''+'' (PyccelMul (Variable ''x'') (Variable ''x''))"
              "OtherNode ''Allocate''" "Variable ''i''"
              "PythonRange (Literal 0) (Variable ''n'') (Literal 1)" "Variable ''j''"
              "PythonRange (Literal 0) (Variable ''m'') (Literal 1)"
              "PyccelMul (Variable ''x'') (Variable ''x'')" "Variable ''lhs''"
              "[Variable ''i'', Variable ''j'']" "Variable ''acc''"
              "Variable ''n''" "Variable ''m''" "Variable ''acc''" "Variable ''x''"
              "print_expr (\<lambda>ff. raise_pm (OtherError ''nested''))"]
  show ?thesis
    by (simp add: low [THEN conjunct2, THEN conjunct2, THEN conjunct2]
          low [THEN conjunct1]
          bind_pm_def return_pm_def aliases_get_def get_pm_def modify_pm_def
          PythonCodePrinter_init_def str_int_digits)
qed

text \<open>
  C4. When the statements that remain of a block after its leading comprehensions have
  been substituted inline are \<open>b\<close> followed by \<open>body\<close>, the descent fails with
  \<open>NotImplementedError\<close> if \<open>body\<close> is not empty and holds a statement that is not an
  assignment to the dummy variable, and continues on \<open>b\<close> otherwise. The failure is the
  result of lowering a comprehension whose loop is that block, and of printing it.
\<close>

theorem block_extra_statements:
  assumes "strip_functional_fors bs = Inr (b # body)"
  shows "find_loop dummy_var iterables (CodeBlock bs)
     = (if body \<noteq> [] \<and> list_ex (\<lambda>s. \<not> (is_Assign s \<and> lhs_of s = Some dummy_var)) body
        then Inl (NotImplementedError
                 ''Pyccel has introduced unnecessary statements which it cannot yet disambiguate in the python printer'')
        else find_loop dummy_var iterables b)
   \<and> (body \<noteq> [] \<and> list_ex (\<lambda>s. \<not> (is_Assign s \<and> lhs_of s = Some dummy_var)) body \<longrightarrow>
        find_functional_expr_and_iterables
            (FunctionalFor (l0 # CodeBlock bs # ls) e lhs idxs dummy_var)
          = Inl (NotImplementedError
                 ''Pyccel has introduced unnecessary statements which it cannot yet disambiguate in the python printer'')
        \<and> print_FunctionalFor pr
            (FunctionalFor (l0 # CodeBlock bs # ls) e lhs idxs dummy_var) st
          = Inl (NotImplementedError
                 ''Pyccel has introduced unnecessary statements which it cannot yet disambiguate in the python printer''))"
  using assms by (auto simp: print_FunctionalFor_def raise_pm_def)

theorem block_extra_statements_witness:
  "strip_functional_fors
      [FunctionalForStmt
         (FunctionalFor [OtherNode ''Allocate'',
                         For (Variable ''k'') (Variable ''r'')
                           (CodeBlock [Assign (Variable ''t'') (Variable ''y'')])]
            (Variable ''y'') (Variable ''tmp'') [Variable ''k''] (Variable ''t'')),
       Assign (Variable ''d'') (Variable ''tmp''),
       OtherNode ''Pass'']
     = Inr [Assign (Variable ''d'')
              (InlineFor
                (FunctionalFor [OtherNode ''Allocate'',
                         For (Variable ''k'') (Variable ''r'')
                           (CodeBlock [Assign (Variable ''t'') (Variable ''y'')])]
                   (Variable ''y'') (Variable ''tmp'') [Variable ''k''] (Variable ''t''))),
            OtherNode ''Pass'']
   \<and> find_loop (Variable ''d'') []
      (CodeBlock
        [FunctionalForStmt
           (FunctionalFor [OtherNode ''Allocate'',
                           For (Variable ''k'') (Variable ''r'')
                             (CodeBlock [Assign (Variable ''t'') (Variable ''y'')])]
              (Variable ''y'') (Variable ''tmp'') [Variable ''k''] (Variable ''t'')),
         Assign (Variable ''d'') (Variable ''tmp''),
         OtherNode ''Pass''])
     = Inl (NotImplementedError
              ''Pyccel has introduced unnecessary statements which it cannot yet disambiguate in the python printer'')"
proof -
  let ?ff = "FunctionalFor [OtherNode ''Allocate'',
                           For (Variable ''k'') (Variable ''r'')
                             (CodeBlock [Assign (Variable ''t'') (Variable ''y'')])]
              (Variable ''y'') (Variable ''tmp'') [Variable ''k''] (Variable ''t'')"
  have s: "strip_functional_fors
             [FunctionalForStmt ?ff, Assign (Variable ''d'') (Variable ''tmp''), OtherNode ''Pass'']
           = Inr (Assign (Variable ''d'') (InlineFor ?ff) # [OtherNode ''Pass''])"
    by simp
  from block_extra_statements [OF s, of "Variable ''d''" "[]"] s show ?thesis
    by simp
qed

end
